theory Spec2Isabelle
  imports Main "HOL-Library.Word"
begin

unbundle bit_operations_syntax

section \<open>Exceptions\<close>

text \<open>
  Modelled from the spec: the macros \<open>TCU_FAIL\<close> and \<open>GLU_EXPECT_NO_ERROR\<close> belong to
  the test framework, which is not among the sources and which the spec treats as a
  black box with a pass/fail contract. \<open>TCU_FAIL(msg)\<close> throws \<open>tcu::TestError\<close> and
  \<open>GLU_EXPECT_NO_ERROR(err, msg)\<close> throws \<open>glu::Error\<close> unless \<open>err\<close> is \<open>GL_NO_ERROR\<close>;
  both carry the message. The other exceptions of the modelled functions come from the
  string library: \<open>std::out_of_range\<close> from \<open>replace\<close> and \<open>std::length_error\<close> from
  \<open>resize\<close>.
\<close>

datatype error = OutOfRange | LengthError | GLError string | TestError string

section \<open>std::string: find and replace\<close>

text \<open>
  A \<open>std::string\<close> is its sequence of characters; a \<open>const GLchar*\<close> argument is the
  sequence of characters before its terminating NUL, so \<open>strlen\<close> is \<open>length\<close>.
  \<open>size_t\<close> values are natural numbers and \<open>npos\<close> is the largest \<open>size_t\<close> of a 64-bit
  target; a string is always shorter than that.
\<close>

definition npos :: nat where
  "npos = 2 ^ 64 - 1"

text \<open>\<open>occurs_at token s i\<close>: the characters of \<open>token\<close> stand in \<open>s\<close> from index \<open>i\<close> on.\<close>

definition occurs_at :: "string \<Rightarrow> string \<Rightarrow> nat \<Rightarrow> bool" where
  "occurs_at token s i = (i \<le> length s \<and> take (length token) (drop i s) = token)"

text \<open>The scan of \<open>std::string::find\<close>: the least index at which the token stands.\<close>

fun find_first :: "string \<Rightarrow> string \<Rightarrow> nat option" where
  "find_first token [] = (if token = [] then Some 0 else None)"
| "find_first token (c # cs) =
     (if take (length token) (c # cs) = token then Some 0
      else map_option Suc (find_first token cs))"

text \<open>\<open>string.find(token, pos)\<close>: \<open>npos\<close> when \<open>pos\<close> is past the end or nothing is found.\<close>

definition find_string :: "string \<Rightarrow> string \<Rightarrow> nat \<Rightarrow> nat" where
  "find_string s token pos =
     (if length s < pos then npos
      else case find_first token (drop pos s) of
             None \<Rightarrow> npos
           | Some i \<Rightarrow> pos + i)"

text \<open>
  \<open>string.replace(pos, len, text, n)\<close>: throws \<open>std::out_of_range\<close> when \<open>pos > size()\<close>;
  otherwise the characters from \<open>pos\<close> up to \<open>pos + len\<close> (clipped at the end of the
  string) give way to the first \<open>n\<close> characters of \<open>text\<close>.
\<close>

definition replace_string :: "string \<Rightarrow> nat \<Rightarrow> nat \<Rightarrow> string \<Rightarrow> nat \<Rightarrow> error + string" where
  "replace_string s pos len text n =
     (if length s < pos then Inl OutOfRange
      else Inr (take pos s @ take n text @ drop (pos + len) s))"

text \<open>
  \<open>replaceToken(token, search_position, text, string)\<close>. The two reference parameters
  \<open>search_position\<close> and \<open>string\<close> are returned updated.
\<close>

definition replaceToken :: "string \<Rightarrow> nat \<Rightarrow> string \<Rightarrow> string \<Rightarrow> error + (nat \<times> string)" where
  "replaceToken token search_position text string =
     (let text_length = length text;
          token_length = length token;
          token_position = find_string string token search_position
      in case replace_string string token_position token_length text text_length of
           Inl e \<Rightarrow> Inl e
         | Inr string' \<Rightarrow> Inr (token_position + text_length, string'))"

section \<open>Decimal output of an unsigned integer\<close>

text \<open>
  \<open>offset_stream << offset\<close> writes a \<open>GLuint\<close> in base ten to a \<open>std::stringstream\<close>
  in the classic locale: the digits without sign, padding or leading zeros.
\<close>

type_synonym GLuint = "32 word"

definition digit_char :: "nat \<Rightarrow> char" where
  "digit_char d = char_of (48 + d)"

fun decimal :: "nat \<Rightarrow> string" where
  "decimal n = (if n < 10 then [digit_char n] else decimal (n div 10) @ [digit_char (n mod 10)])"

declare decimal.simps [simp del]

text \<open>Reading a digit string back, to state that \<open>decimal\<close> writes the number itself.\<close>

definition digit_value :: "char \<Rightarrow> nat" where
  "digit_value c = of_char c - 48"

definition decimal_value :: "string \<Rightarrow> nat" where
  "decimal_value ds = foldl (\<lambda>acc c. 10 * acc + digit_value c) 0 ds"

section \<open>StorageBufferTest and UniformBufferTest: shader sources\<close>

text \<open>
  Modelled from the spec: the header \<open>glcRobustBufferAccessBehaviorTests.hpp\<close>, which
  declares the classes and their enumerations, is not among the sources. The
  enumerators of \<open>VERSION\<close> are the ones that the functions of each test name, in the
  order in which \<open>iterate\<close> steps through them up to \<open>LAST\<close>; the fields of a class
  are the ones that its functions read and write.
\<close>

datatype UniformBufferTest_VERSION = VALID | SOURCE_INVALID | LAST

record UniformBufferTest =
  m_test_case :: UniformBufferTest_VERSION

text \<open>The shader template of \<open>UniformBufferTest::getComputeShader\<close>, cut at its two tokens.\<close>

definition UniformBufferTest_cs_head :: string where
  "UniformBufferTest_cs_head =
     ''#version 430 core\<newline>'' @
     ''\<newline>'' @
     ''layout (local_size_x = 4, local_size_y = 1, local_size_z = 1) in;\<newline>'' @
     ''\<newline>'' @
     ''layout (binding = 0, std140) uniform Source {\<newline>'' @
     ''    float data[16];\<newline>'' @
     ''} source;\<newline>'' @
     ''\<newline>'' @
     ''layout (binding = 0, std430) buffer Destination {\<newline>'' @
     ''    float data[];\<newline>'' @
     ''} destination;\<newline>'' @
     ''\<newline>'' @
     ''void main()\<newline>'' @
     ''{\<newline>'' @
     ''    const uint index_destination = gl_LocalInvocationID.x + ''"

definition cs_mid :: string where
  "cs_mid =
     '';\<newline>'' @
     ''    const uint index_source      = gl_LocalInvocationID.x + ''"

definition cs_tail :: string where
  "cs_tail =
     '';\<newline>'' @
     ''\<newline>'' @
     ''    destination.data[index_destination] = source.data[index_source];\<newline>'' @
     ''}\<newline>'' @
     ''\<newline>''"

definition UniformBufferTest_cs :: string where
  "UniformBufferTest_cs = UniformBufferTest_cs_head @ ''OFFSET'' @ cs_mid @ ''OFFSET'' @ cs_tail"

definition UniformBufferTest_getComputeShader :: "UniformBufferTest \<Rightarrow> GLuint \<Rightarrow> error + string" where
  "UniformBufferTest_getComputeShader this offset =
     (let destination_offset = ''0'';
          source_offset = ''0'';
          position = 0;
          source = UniformBufferTest_cs;
          offset_stream = decimal (unat offset);
          source_offset = (if m_test_case this = SOURCE_INVALID then offset_stream else source_offset)
      in case replaceToken ''OFFSET'' position destination_offset source of
           Inl e \<Rightarrow> Inl e
         | Inr (position, source) \<Rightarrow>
             (case replaceToken ''OFFSET'' position source_offset source of
                Inl e \<Rightarrow> Inl e
              | Inr (position, source) \<Rightarrow> Inr source))"

datatype StorageBufferTest_VERSION = VALID | SOURCE_INVALID | DESTINATION_INVALID | LAST

record StorageBufferTest =
  m_test_case :: StorageBufferTest_VERSION
  m_hasKhrRobustBufferAccess :: bool

text \<open>
  The shader template of \<open>StorageBufferTest::getComputeShader\<close>; it differs from the
  other one in the declaration of the source block only.
\<close>

definition StorageBufferTest_cs_head :: string where
  "StorageBufferTest_cs_head =
     ''#version 430 core\<newline>'' @
     ''\<newline>'' @
     ''layout (local_size_x = 4, local_size_y = 1, local_size_z = 1) in;\<newline>'' @
     ''\<newline>'' @
     ''layout (binding = 1, std430) buffer Source {\<newline>'' @
     ''    float data[];\<newline>'' @
     ''} source;\<newline>'' @
     ''\<newline>'' @
     ''layout (binding = 0, std430) buffer Destination {\<newline>'' @
     ''    float data[];\<newline>'' @
     ''} destination;\<newline>'' @
     ''\<newline>'' @
     ''void main()\<newline>'' @
     ''{\<newline>'' @
     ''    const uint index_destination = gl_LocalInvocationID.x + ''"

definition StorageBufferTest_cs :: string where
  "StorageBufferTest_cs = StorageBufferTest_cs_head @ ''OFFSET'' @ cs_mid @ ''OFFSET'' @ cs_tail"

definition StorageBufferTest_getComputeShader :: "StorageBufferTest \<Rightarrow> GLuint \<Rightarrow> error + string" where
  "StorageBufferTest_getComputeShader this offset =
     (let destination_offset = ''0'';
          source_offset = ''0'';
          position = 0;
          source = StorageBufferTest_cs;
          offset_stream = decimal (unat offset);
          (source_offset, destination_offset) =
             (if StorageBufferTest.m_test_case this = SOURCE_INVALID
                then (offset_stream, destination_offset)
              else if StorageBufferTest.m_test_case this = DESTINATION_INVALID
                then (source_offset, offset_stream)
              else (source_offset, destination_offset))
      in case replaceToken ''OFFSET'' position destination_offset source of
           Inl e \<Rightarrow> Inl e
         | Inr (position, source) \<Rightarrow>
             (case replaceToken ''OFFSET'' position source_offset source of
                Inl e \<Rightarrow> Inl e
              | Inr (position, source) \<Rightarrow> Inr source))"

section \<open>Floats, bytes and the test log\<close>

text \<open>
  A \<open>GLfloat\<close> is its IEEE 754 binary32 bit pattern. \<open>float_eq\<close> is the comparison
  \<open>==\<close> of the language: false when an operand is a NaN, true for two zeros of either
  sign, and equality of the patterns otherwise. \<open>memcmp\<close> compares the bytes of the
  patterns (written here least significant byte first; only whether the result is zero
  is ever used, and that does not depend on the byte order). An array behind a
  \<open>GLfloat*\<close> is the list of its elements; the functions read four of them, and what a
  read past the end of a shorter array would give is left out of the model.
\<close>

type_synonym GLfloat = "32 word"
type_synonym byte = "8 word"

definition float_0 :: GLfloat where "float_0 = 0x00000000"
definition float_1 :: GLfloat where "float_1 = 0x3F800000"
definition float_2 :: GLfloat where "float_2 = 0x40000000"
definition float_3 :: GLfloat where "float_3 = 0x40400000"
definition float_4 :: GLfloat where "float_4 = 0x40800000"
definition float_5 :: GLfloat where "float_5 = 0x40A00000"

definition is_nan :: "GLfloat \<Rightarrow> bool" where
  "is_nan f = (0x7F800000 < (f AND 0x7FFFFFFF))"

definition is_zero :: "GLfloat \<Rightarrow> bool" where
  "is_zero f = (f AND 0x7FFFFFFF = 0)"

definition float_eq :: "GLfloat \<Rightarrow> GLfloat \<Rightarrow> bool" where
  "float_eq a b = (\<not> is_nan a \<and> \<not> is_nan b \<and> (a = b \<or> (is_zero a \<and> is_zero b)))"

definition float_bytes :: "GLfloat \<Rightarrow> byte list" where
  "float_bytes f = [ucast f, ucast (drop_bit 8 f), ucast (drop_bit 16 f), ucast (drop_bit 24 f)]"

definition array_bytes :: "GLfloat list \<Rightarrow> byte list" where
  "array_bytes fs = concat (map float_bytes fs)"

fun memcmp :: "byte list \<Rightarrow> byte list \<Rightarrow> nat \<Rightarrow> int" where
  "memcmp (a # as) (b # bs) (Suc n) =
     (if a = b then memcmp as bs n else if a < b then - 1 else 1)"
| "memcmp _ _ _ = 0"

text \<open>The line \<open>"Test case: " << name << " failed"\<close> that the tests write to the log.\<close>

definition failed_message :: "string \<Rightarrow> string" where
  "failed_message name = ''Test case: '' @ name @ '' failed''"

section \<open>UniformBufferTest::verifyResults\<close>

text \<open>
  The function reads \<open>m_test_case\<close> and the four floats behind \<open>buffer_data\<close>, may write
  to the log of the test context, and returns a \<open>bool\<close> or throws through \<open>TCU_FAIL\<close>.
\<close>

definition UniformBufferTest_verifyResults ::
  "UniformBufferTest \<Rightarrow> GLfloat list \<Rightarrow> string list \<Rightarrow> (error + bool) \<times> string list" where
  "UniformBufferTest_verifyResults this buffer_data log =
     (let expected_data_valid = [float_2, float_3, float_4, float_5];
          expected_data_invalid_source = [float_0, float_0, float_0, float_0];
          size = 4 * 4
      in case (case UniformBufferTest.m_test_case this of
                 UniformBufferTest_VERSION.VALID \<Rightarrow>
                   Inr (expected_data_valid, ''valid indices'')
               | UniformBufferTest_VERSION.SOURCE_INVALID \<Rightarrow>
                   Inr (expected_data_invalid_source, ''invalid source indices'')
               | UniformBufferTest_VERSION.LAST \<Rightarrow>
                   Inl (TestError ''Invalid enum'')) of
           Inl e \<Rightarrow> (Inl e, log)
         | Inr (expected_data, name) \<Rightarrow>
             if 0 \<noteq> memcmp (array_bytes expected_data) (array_bytes buffer_data) size
             then (Inr False, log @ [failed_message name])
             else (Inr True, log))"

section \<open>StorageBufferTest::verifyResults\<close>

definition m_destination_data :: "GLfloat list" where
  "m_destination_data = [float_1, float_1, float_1, float_1]"

definition m_source_data :: "GLfloat list" where
  "m_source_data = [float_2, float_3, float_4, float_5]"

text \<open>The inner loop \<open>for (int c = 0; c < 4 && !valid; c++)\<close> over the source values.\<close>

function source_data_loop :: "GLfloat \<Rightarrow> nat \<Rightarrow> bool \<Rightarrow> bool" where
  "source_data_loop x c valid =
     (if c < 4 \<and> \<not> valid
      then source_data_loop x (Suc c) (if float_eq x (m_source_data ! c) then True else valid)
      else valid)"
  by pat_completeness auto
termination
  by (relation "measure (\<lambda>(x, c, valid). 4 - c)") auto

declare source_data_loop.simps [simp del]

text \<open>
  The loop \<open>for (int b = 0; b < 4; b++)\<close> of the case \<open>SOURCE_INVALID\<close> on the robust
  path. An element that is not valid adds a line to the log, and nothing else.
\<close>

function invalid_source_loop :: "GLfloat list \<Rightarrow> string \<Rightarrow> nat \<Rightarrow> string list \<Rightarrow> string list" where
  "invalid_source_loop buffer_data name b log =
     (if b < 4
      then let valid = (if float_eq (buffer_data ! b) float_0 then True
                        else source_data_loop (buffer_data ! b) 0 False);
               log = (if \<not> valid then log @ [failed_message name] else log)
           in invalid_source_loop buffer_data name (Suc b) log
      else log)"
  by pat_completeness auto
termination
  by (relation "measure (\<lambda>(buffer_data, name, b, log). 4 - b)") auto

declare invalid_source_loop.simps [simp del]

text \<open>The same loop of the case \<open>DESTINATION_INVALID\<close>.\<close>

function invalid_destination_loop :: "GLfloat list \<Rightarrow> string \<Rightarrow> nat \<Rightarrow> string list \<Rightarrow> string list" where
  "invalid_destination_loop buffer_data name b log =
     (if b < 4
      then let valid = (if float_eq (buffer_data ! b) (m_destination_data ! b) then True
                        else source_data_loop (buffer_data ! b) 0 False);
               log = (if \<not> valid then log @ [failed_message name] else log)
           in invalid_destination_loop buffer_data name (Suc b) log
      else log)"
  by pat_completeness auto
termination
  by (relation "measure (\<lambda>(buffer_data, name, b, log). 4 - b)") auto

declare invalid_destination_loop.simps [simp del]

text \<open>
  The \<open>switch\<close> yields the name of the case, \<open>check_expected_data\<close>, \<open>expected_data\<close>
  (empty where the source leaves the null pointer) and the log, or throws.
\<close>

definition StorageBufferTest_verifyResults ::
  "StorageBufferTest \<Rightarrow> GLfloat list \<Rightarrow> string list \<Rightarrow> (error + bool) \<times> string list" where
  "StorageBufferTest_verifyResults this buffer_data log =
     (let expected_data_valid = [float_2, float_3, float_4, float_5];
          expected_data_invalid_source = [float_0, float_0, float_0, float_0];
          expected_data_invalid_destination = [float_1, float_1, float_1, float_1]
      in case (case StorageBufferTest.m_test_case this of
                 VALID \<Rightarrow> Inr (''valid indices'', True, expected_data_valid, log)
               | SOURCE_INVALID \<Rightarrow>
                   (let name = ''invalid source indices''
                    in if m_hasKhrRobustBufferAccess this
                       then Inr (name, False, [], invalid_source_loop buffer_data name 0 log)
                       else Inr (name, True, expected_data_invalid_source, log))
               | DESTINATION_INVALID \<Rightarrow>
                   (let name = ''invalid destination indices''
                    in if m_hasKhrRobustBufferAccess this
                       then Inr (name, False, [], invalid_destination_loop buffer_data name 0 log)
                       else Inr (name, True, expected_data_invalid_destination, log))
               | LAST \<Rightarrow> Inl (TestError ''Invalid enum'')) of
           Inl e \<Rightarrow> (Inl e, log)
         | Inr (name, check_expected_data, expected_data, log) \<Rightarrow>
             if check_expected_data
             then (let size = 4 * 4
                   in if 0 \<noteq> memcmp (array_bytes expected_data) (array_bytes buffer_data) size
                      then (Inr False, log @ [failed_message name])
                      else (Inr True, log))
             else (Inr True, log))"

text \<open>
  The reading of claim C1, in the words of the claim: which arrays hold only allowed
  values in each case.
\<close>

definition from_source_buffer :: "GLfloat \<Rightarrow> bool" where
  "from_source_buffer x = (\<exists>s \<in> set m_source_data. float_eq x s)"

definition claimed_allowed :: "StorageBufferTest_VERSION \<Rightarrow> GLfloat list \<Rightarrow> bool" where
  "claimed_allowed test_case buffer_data =
     (case test_case of
        VALID \<Rightarrow> buffer_data = [float_2, float_3, float_4, float_5]
      | SOURCE_INVALID \<Rightarrow>
          (\<forall>x \<in> set buffer_data. float_eq x float_0 \<or> from_source_buffer x)
      | DESTINATION_INVALID \<Rightarrow>
          (\<forall>x \<in> set buffer_data. float_eq x float_1 \<or> from_source_buffer x)
      | LAST \<Rightarrow> False)"

section \<open>The GL entry points and the driver\<close>

text \<open>
  The wrappers reach the graphics driver through the table \<open>gl\<close> of entry points. The
  driver is a black box: the model records the calls that were issued, in order, and
  takes what the driver gives back (an error code, an object name, a queried
  parameter, an info log, the texels of an image) as a function of the calls issued
  so far, the answered call last.
\<close>

type_synonym GLenum = "32 word"
type_synonym GLint = "32 word"

datatype gl_call =
    getError
  | deleteBuffers GLuint
  | deleteFramebuffers GLuint
  | deleteTextures GLuint
  | deleteVertexArrays GLuint
  | bindVertexArray GLuint
  | createProgram
  | deleteProgram GLuint
  | useProgram GLuint
  | attachShader GLuint GLuint
  | linkProgram GLuint
  | getProgramiv GLuint GLenum
  | getProgramInfoLog GLuint GLint
  | createShader GLenum
  | deleteShader GLuint
  | shaderSource GLuint string
  | compileShader GLuint
  | getShaderiv GLuint GLenum
  | getShaderInfoLog GLuint GLint
  | bindTexture GLenum GLuint
  | getTexImage GLenum GLint GLenum GLenum

record driver =
  error_code :: "gl_call list \<Rightarrow> GLenum"
  object_name :: "gl_call list \<Rightarrow> GLuint"
  parameter :: "gl_call list \<Rightarrow> GLint"
  info_log :: "gl_call list \<Rightarrow> string"
  tex_image :: "gl_call list \<Rightarrow> byte list"

text \<open>
  Modelled from the spec: \<open>glwEnums.hpp\<close> is not among the sources. The enumerators
  that the modelled functions pass on have their values of the OpenGL registry; the
  functions only hand them to the driver and compare a status with \<open>GL_TRUE\<close> and an
  error code with \<open>GL_NO_ERROR\<close>.
\<close>

definition GL_NO_ERROR :: GLenum where "GL_NO_ERROR = 0"
definition GL_FALSE :: GLint where "GL_FALSE = 0"
definition GL_TRUE :: GLint where "GL_TRUE = 1"
definition GL_TEXTURE_2D :: GLenum where "GL_TEXTURE_2D = 0x0DE1"
definition GL_UNSIGNED_BYTE :: GLenum where "GL_UNSIGNED_BYTE = 0x1401"
definition GL_RED_INTEGER :: GLenum where "GL_RED_INTEGER = 0x8D94"
definition GL_FRAGMENT_SHADER :: GLenum where "GL_FRAGMENT_SHADER = 0x8B30"
definition GL_VERTEX_SHADER :: GLenum where "GL_VERTEX_SHADER = 0x8B31"
definition GL_GEOMETRY_SHADER :: GLenum where "GL_GEOMETRY_SHADER = 0x8DD9"
definition GL_TESS_EVALUATION_SHADER :: GLenum where "GL_TESS_EVALUATION_SHADER = 0x8E87"
definition GL_TESS_CONTROL_SHADER :: GLenum where "GL_TESS_CONTROL_SHADER = 0x8E88"
definition GL_COMPUTE_SHADER :: GLenum where "GL_COMPUTE_SHADER = 0x91B9"
definition GL_COMPILE_STATUS :: GLenum where "GL_COMPILE_STATUS = 0x8B81"
definition GL_LINK_STATUS :: GLenum where "GL_LINK_STATUS = 0x8B82"
definition GL_INFO_LOG_LENGTH :: GLenum where "GL_INFO_LOG_LENGTH = 0x8B84"

subsection \<open>Statements that may throw\<close>

text \<open>
  A statement takes a state and returns the state it leaves behind, with either a
  value or the exception it threw. A block runs its statements in order and stops at
  the first exception.
\<close>

definition then_do ::
  "('s \<Rightarrow> (error + 'a) \<times> 's) \<Rightarrow> ('a \<Rightarrow> 's \<Rightarrow> (error + 'b) \<times> 's) \<Rightarrow> 's \<Rightarrow> (error + 'b) \<times> 's" where
  "then_do f g s = (case f s of (Inl e, s') \<Rightarrow> (Inl e, s') | (Inr x, s') \<Rightarrow> g x s')"

fun statements :: "('s \<Rightarrow> (error + unit) \<times> 's) list \<Rightarrow> 's \<Rightarrow> (error + unit) \<times> 's" where
  "statements [] s = (Inr (), s)"
| "statements (f # fs) s =
     (case f s of (Inl e, s') \<Rightarrow> (Inl e, s') | (Inr _, s') \<Rightarrow> statements fs s')"

text \<open>Issuing a call that returns nothing.\<close>

definition call :: "gl_call \<Rightarrow> gl_call list \<Rightarrow> (error + unit) \<times> gl_call list" where
  "call c calls = (Inr (), calls @ [c])"

text \<open>
  Modelled from the spec: \<open>GLU_EXPECT_NO_ERROR\<close> is a macro of the test framework, which
  is not among the sources and which the spec treats as a black box with a pass/fail
  contract. \<open>GLU_EXPECT_NO_ERROR(gl.getError(), msg)\<close> calls \<open>getError\<close> and throws
  \<open>glu::Error\<close> with the message unless the code is \<open>GL_NO_ERROR\<close>.
\<close>

definition GLU_EXPECT_NO_ERROR :: "driver \<Rightarrow> string \<Rightarrow> gl_call list \<Rightarrow> (error + unit) \<times> gl_call list" where
  "GLU_EXPECT_NO_ERROR gl msg calls =
     (let calls = calls @ [getError]
      in if error_code gl calls = GL_NO_ERROR then (Inr (), calls)
         else (Inl (GLError msg), calls))"

text \<open>A static function, which sees the entry points only, run from a method of an object.\<close>

definition on_gl ::
  "(gl_call list \<Rightarrow> (error + 'a) \<times> gl_call list) \<Rightarrow>
   'o \<times> gl_call list \<Rightarrow> (error + 'a) \<times> ('o \<times> gl_call list)" where
  "on_gl f = (\<lambda>(this, calls). case f calls of (r, calls') \<Rightarrow> (r, (this, calls')))"

text \<open>A method of a member object, run from a method of the object that holds it.\<close>

definition on_member ::
  "('o \<Rightarrow> 'm) \<Rightarrow> (('m \<Rightarrow> 'm) \<Rightarrow> 'o \<Rightarrow> 'o) \<Rightarrow>
   ('m \<times> gl_call list \<Rightarrow> (error + 'a) \<times> ('m \<times> gl_call list)) \<Rightarrow>
   'o \<times> gl_call list \<Rightarrow> (error + 'a) \<times> ('o \<times> gl_call list)" where
  "on_member get upd f =
     (\<lambda>(this, calls). case f (get this, calls) of
                        (r, (m, calls')) \<Rightarrow> (r, (upd (\<lambda>_. m) this, calls')))"

section \<open>Resource wrappers\<close>

subsection \<open>Buffer, Framebuffer, Texture\<close>

record Buffer =
  m_id :: GLuint
  m_target :: GLenum

definition Buffer_m_invalid_id :: GLuint where
  "Buffer_m_invalid_id = - 1"

definition Buffer_Release :: "Buffer \<times> gl_call list \<Rightarrow> (error + unit) \<times> (Buffer \<times> gl_call list)" where
  "Buffer_Release =
     (\<lambda>(this, calls).
        if Buffer_m_invalid_id \<noteq> Buffer.m_id this
        then (Inr (), (this\<lparr>Buffer.m_id := Buffer_m_invalid_id\<rparr>,
                       calls @ [deleteBuffers (Buffer.m_id this)]))
        else (Inr (), (this, calls)))"

record Framebuffer =
  m_id :: GLuint

definition Framebuffer_m_invalid_id :: GLuint where
  "Framebuffer_m_invalid_id = - 1"

definition Framebuffer_Release ::
  "Framebuffer \<times> gl_call list \<Rightarrow> (error + unit) \<times> (Framebuffer \<times> gl_call list)" where
  "Framebuffer_Release =
     (\<lambda>(this, calls).
        if Framebuffer_m_invalid_id \<noteq> Framebuffer.m_id this
        then (Inr (), (this\<lparr>Framebuffer.m_id := Framebuffer_m_invalid_id\<rparr>,
                       calls @ [deleteFramebuffers (Framebuffer.m_id this)]))
        else (Inr (), (this, calls)))"

record Texture =
  m_id :: GLuint

definition Texture_m_invalid_id :: GLuint where
  "Texture_m_invalid_id = - 1"

definition Texture_Release :: "Texture \<times> gl_call list \<Rightarrow> (error + unit) \<times> (Texture \<times> gl_call list)" where
  "Texture_Release =
     (\<lambda>(this, calls).
        if Texture_m_invalid_id \<noteq> Texture.m_id this
        then (Inr (), (this\<lparr>Texture.m_id := Texture_m_invalid_id\<rparr>,
                       calls @ [deleteTextures (Texture.m_id this)]))
        else (Inr (), (this, calls)))"

definition Texture_Bind :: "driver \<Rightarrow> GLuint \<Rightarrow> GLenum \<Rightarrow> gl_call list \<Rightarrow> (error + unit) \<times> gl_call list" where
  "Texture_Bind gl id' target =
     statements [call (bindTexture target id'), GLU_EXPECT_NO_ERROR gl ''BindTexture'']"

text \<open>
  \<open>Texture::GetData(gl, level, target, format, type, out_data)\<close>: the driver writes the
  texels over the start of \<open>out_data\<close>; the array is returned as the call leaves it.
\<close>

definition Texture_GetData ::
  "driver \<Rightarrow> GLint \<Rightarrow> GLenum \<Rightarrow> GLenum \<Rightarrow> GLenum \<Rightarrow> byte list \<Rightarrow>
   gl_call list \<Rightarrow> (error + byte list) \<times> gl_call list" where
  "Texture_GetData gl level target format type out_data calls =
     (let calls = calls @ [getTexImage target level format type];
          written = tex_image gl calls;
          out_data = written @ drop (length written) out_data
      in then_do (GLU_EXPECT_NO_ERROR gl ''GetTexImage'') (\<lambda>_ calls. (Inr out_data, calls)) calls)"

subsection \<open>VertexArray\<close>

record VertexArray =
  m_id :: GLuint

definition VertexArray_m_invalid_id :: GLuint where
  "VertexArray_m_invalid_id = - 1"

definition VertexArray_Bind :: "driver \<Rightarrow> GLuint \<Rightarrow> gl_call list \<Rightarrow> (error + unit) \<times> gl_call list" where
  "VertexArray_Bind gl id' =
     statements [call (bindVertexArray id'), GLU_EXPECT_NO_ERROR gl ''BindVertexArray'']"

definition VertexArray_Release ::
  "driver \<Rightarrow> VertexArray \<times> gl_call list \<Rightarrow> (error + unit) \<times> (VertexArray \<times> gl_call list)" where
  "VertexArray_Release gl =
     (\<lambda>(this, calls).
        if VertexArray_m_invalid_id \<noteq> VertexArray.m_id this
        then statements
               [on_gl (VertexArray_Bind gl 0),
                on_gl (call (deleteVertexArrays (VertexArray.m_id this))),
                (\<lambda>(this, calls).
                   (Inr (), (this\<lparr>VertexArray.m_id := VertexArray_m_invalid_id\<rparr>, calls)))]
               (this, calls)
        else (Inr (), (this, calls)))"

subsection \<open>Shader\<close>

record Shader =
  m_id :: GLuint

definition Shader_m_invalid_id :: GLuint where
  "Shader_m_invalid_id = 0"

definition Shader_Release :: "Shader \<times> gl_call list \<Rightarrow> (error + unit) \<times> (Shader \<times> gl_call list)" where
  "Shader_Release =
     (\<lambda>(this, calls).
        if Shader_m_invalid_id \<noteq> Shader.m_id this
        then (Inr (), (this\<lparr>Shader.m_id := Shader_m_invalid_id\<rparr>,
                       calls @ [deleteShader (Shader.m_id this)]))
        else (Inr (), (this, calls)))"

text \<open>\<open>Shader::Create(gl, stage, out_id)\<close> returns what it stores in \<open>out_id\<close>.\<close>

definition Shader_Create :: "driver \<Rightarrow> GLenum \<Rightarrow> gl_call list \<Rightarrow> (error + GLuint) \<times> gl_call list" where
  "Shader_Create gl stage calls =
     (let calls = calls @ [createShader stage];
          id' = object_name gl calls
      in then_do (GLU_EXPECT_NO_ERROR gl ''CreateShader'')
           (\<lambda>_ calls. if Shader_m_invalid_id = id'
                       then (Inl (TestError ''Failed to create shader''), calls)
                       else (Inr id', calls))
           calls)"

definition Shader_Source :: "driver \<Rightarrow> GLuint \<Rightarrow> string \<Rightarrow> gl_call list \<Rightarrow> (error + unit) \<times> gl_call list" where
  "Shader_Source gl id' source =
     statements [call (shaderSource id' source), GLU_EXPECT_NO_ERROR gl ''ShaderSource'']"

text \<open>
  The message that the functions below throw when compiling or linking fails.
  \<open>message.resize(length, 0)\<close> throws \<open>std::length_error\<close> for a negative \<open>length\<close>, which
  the conversion to \<open>size_t\<close> makes larger than any string. Otherwise the driver writes
  at most \<open>length - 1\<close> characters of its log and a terminating NUL into the buffer of
  \<open>length\<close> characters, and \<open>message.c_str()\<close> is what stands before the first NUL.
\<close>

definition info_message :: "GLint \<Rightarrow> string \<Rightarrow> string" where
  "info_message length' written =
     takeWhile (\<lambda>c. c \<noteq> CHR 0x00) (take (nat (sint length') - 1) written)"

text \<open>
  \<open>Shader::Compile\<close>; when the status is not \<open>GL_TRUE\<close> it fetches the info log and
  throws it.
\<close>

definition Shader_Compile :: "driver \<Rightarrow> GLuint \<Rightarrow> gl_call list \<Rightarrow> (error + unit) \<times> gl_call list" where
  "Shader_Compile gl id' =
     statements
       [call (compileShader id'),
        GLU_EXPECT_NO_ERROR gl ''CompileShader'',
        (\<lambda>calls.
           let calls = calls @ [getShaderiv id' GL_COMPILE_STATUS];
               status = parameter gl calls
           in statements
                [GLU_EXPECT_NO_ERROR gl ''GetShaderiv'',
                 (\<lambda>calls.
                    if GL_TRUE \<noteq> status
                    then (let calls = calls @ [getShaderiv id' GL_INFO_LOG_LENGTH];
                              length' = parameter gl calls
                          in statements
                               [GLU_EXPECT_NO_ERROR gl ''GetShaderiv'',
                                (\<lambda>calls.
                                   if sint length' < 0 then (Inl LengthError, calls)
                                   else
                                     let calls = calls @ [getShaderInfoLog id' length'];
                                         message = info_message length' (info_log gl calls)
                                     in statements
                                          [GLU_EXPECT_NO_ERROR gl ''GetShaderInfoLog'',
                                           (\<lambda>calls. (Inl (TestError message), calls))]
                                          calls)]
                               calls)
                    else (Inr (), calls))]
                calls)]"

definition Shader_Init ::
  "driver \<Rightarrow> GLenum \<Rightarrow> string \<Rightarrow> Shader \<times> gl_call list \<Rightarrow> (error + unit) \<times> (Shader \<times> gl_call list)" where
  "Shader_Init gl stage source =
     (\<lambda>(this, calls).
        if source = []
        then (Inr (), (this, calls))
        else statements
               [Shader_Release,
                (\<lambda>(this, calls).
                   case Shader_Create gl stage calls of
                     (Inl e, calls) \<Rightarrow> (Inl e, (this, calls))
                   | (Inr id', calls) \<Rightarrow> (Inr (), (this\<lparr>Shader.m_id := id'\<rparr>, calls))),
                (\<lambda>(this, calls). on_gl (Shader_Source gl (Shader.m_id this) source) (this, calls)),
                (\<lambda>(this, calls). on_gl (Shader_Compile gl (Shader.m_id this)) (this, calls))]
               (this, calls))"

subsection \<open>Program\<close>

record Program =
  m_id :: GLuint
  m_compute :: Shader
  m_fragment :: Shader
  m_geometry :: Shader
  m_tess_ctrl :: Shader
  m_tess_eval :: Shader
  m_vertex :: Shader

definition Program_m_invalid_id :: GLuint where
  "Program_m_invalid_id = 0"

definition Program_Use :: "driver \<Rightarrow> GLuint \<Rightarrow> gl_call list \<Rightarrow> (error + unit) \<times> gl_call list" where
  "Program_Use gl id' =
     statements [call (useProgram id'), GLU_EXPECT_NO_ERROR gl ''UseProgram'']"

definition Program_Release ::
  "driver \<Rightarrow> Program \<times> gl_call list \<Rightarrow> (error + unit) \<times> (Program \<times> gl_call list)" where
  "Program_Release gl =
     statements
       [(\<lambda>(this, calls).
           if Program_m_invalid_id \<noteq> Program.m_id this
           then statements
                  [on_gl (Program_Use gl Program_m_invalid_id),
                   on_gl (call (deleteProgram (Program.m_id this))),
                   (\<lambda>(this, calls).
                      (Inr (), (this\<lparr>Program.m_id := Program_m_invalid_id\<rparr>, calls)))]
                  (this, calls)
           else (Inr (), (this, calls))),
        on_member m_compute m_compute_update Shader_Release,
        on_member m_fragment m_fragment_update Shader_Release,
        on_member m_geometry m_geometry_update Shader_Release,
        on_member m_tess_ctrl m_tess_ctrl_update Shader_Release,
        on_member m_tess_eval m_tess_eval_update Shader_Release,
        on_member m_vertex m_vertex_update Shader_Release]"

definition Program_Attach :: "driver \<Rightarrow> GLuint \<Rightarrow> GLuint \<Rightarrow> gl_call list \<Rightarrow> (error + unit) \<times> gl_call list" where
  "Program_Attach gl program_id shader_id calls =
     (if Program_m_invalid_id = program_id \<or> Shader_m_invalid_id = shader_id
      then (Inr (), calls)
      else statements
             [call (attachShader program_id shader_id),
              GLU_EXPECT_NO_ERROR gl ''AttachShader'']
             calls)"

definition Program_Create :: "driver \<Rightarrow> gl_call list \<Rightarrow> (error + GLuint) \<times> gl_call list" where
  "Program_Create gl calls =
     (let calls = calls @ [createProgram];
          id' = object_name gl calls
      in then_do (GLU_EXPECT_NO_ERROR gl ''CreateProgram'')
           (\<lambda>_ calls. if Program_m_invalid_id = id'
                       then (Inl (TestError ''Failed to create program''), calls)
                       else (Inr id', calls))
           calls)"

definition Program_Link :: "driver \<Rightarrow> GLuint \<Rightarrow> gl_call list \<Rightarrow> (error + unit) \<times> gl_call list" where
  "Program_Link gl id' =
     statements
       [call (linkProgram id'),
        GLU_EXPECT_NO_ERROR gl ''LinkProgram'',
        (\<lambda>calls.
           let calls = calls @ [getProgramiv id' GL_LINK_STATUS];
               status = parameter gl calls
           in statements
                [GLU_EXPECT_NO_ERROR gl ''GetProgramiv'',
                 (\<lambda>calls.
                    if GL_TRUE \<noteq> status
                    then (let calls = calls @ [getProgramiv id' GL_INFO_LOG_LENGTH];
                              length' = parameter gl calls
                          in statements
                               [GLU_EXPECT_NO_ERROR gl ''GetProgramiv'',
                                (\<lambda>calls.
                                   if sint length' < 0 then (Inl LengthError, calls)
                                   else
                                     let calls = calls @ [getProgramInfoLog id' length'];
                                         message = info_message length' (info_log gl calls)
                                     in statements
                                          [GLU_EXPECT_NO_ERROR gl ''GetProgramInfoLog'',
                                           (\<lambda>calls. (Inl (TestError message), calls))]
                                          calls)]
                               calls)
                    else (Inr (), calls))]
                calls)]"

definition Program_Init ::
  "driver \<Rightarrow> string \<Rightarrow> string \<Rightarrow> string \<Rightarrow> string \<Rightarrow> string \<Rightarrow> string \<Rightarrow>
   Program \<times> gl_call list \<Rightarrow> (error + unit) \<times> (Program \<times> gl_call list)" where
  "Program_Init gl compute_shader fragment_shader geometry_shader
     tesselation_control_shader tesselation_evaluation_shader vertex_shader =
     statements
       [Program_Release gl,
        on_member m_compute m_compute_update (Shader_Init gl GL_COMPUTE_SHADER compute_shader),
        on_member m_fragment m_fragment_update (Shader_Init gl GL_FRAGMENT_SHADER fragment_shader),
        on_member m_geometry m_geometry_update (Shader_Init gl GL_GEOMETRY_SHADER geometry_shader),
        on_member m_tess_ctrl m_tess_ctrl_update
          (Shader_Init gl GL_TESS_CONTROL_SHADER tesselation_control_shader),
        on_member m_tess_eval m_tess_eval_update
          (Shader_Init gl GL_TESS_EVALUATION_SHADER tesselation_evaluation_shader),
        on_member m_vertex m_vertex_update (Shader_Init gl GL_VERTEX_SHADER vertex_shader),
        (\<lambda>(this, calls).
           case Program_Create gl calls of
             (Inl e, calls) \<Rightarrow> (Inl e, (this, calls))
           | (Inr id', calls) \<Rightarrow> (Inr (), (this\<lparr>Program.m_id := id'\<rparr>, calls))),
        (\<lambda>(this, calls).
           on_gl (Program_Attach gl (Program.m_id this) (Shader.m_id (m_compute this))) (this, calls)),
        (\<lambda>(this, calls).
           on_gl (Program_Attach gl (Program.m_id this) (Shader.m_id (m_fragment this))) (this, calls)),
        (\<lambda>(this, calls).
           on_gl (Program_Attach gl (Program.m_id this) (Shader.m_id (m_geometry this))) (this, calls)),
        (\<lambda>(this, calls).
           on_gl (Program_Attach gl (Program.m_id this) (Shader.m_id (m_tess_ctrl this))) (this, calls)),
        (\<lambda>(this, calls).
           on_gl (Program_Attach gl (Program.m_id this) (Shader.m_id (m_tess_eval this))) (this, calls)),
        (\<lambda>(this, calls).
           on_gl (Program_Attach gl (Program.m_id this) (Shader.m_id (m_vertex this))) (this, calls)),
        (\<lambda>(this, calls). on_gl (Program_Link gl (Program.m_id this)) (this, calls))]"

section \<open>VertexBufferObjectsTest: reading the image back\<close>

text \<open>The verifying loop \<open>for (GLuint i = 0; i < width * height; ++i)\<close> with its early return.\<close>

function verify_loop :: "byte list \<Rightarrow> nat \<Rightarrow> bool" where
  "verify_loop pixels i =
     (if i < 8 * 8
      then (if 255 \<noteq> pixels ! i then False else verify_loop pixels (Suc i))
      else True)"
  by pat_completeness auto
termination
  by (relation "measure (\<lambda>(pixels, i). 8 * 8 - i)") auto

declare verify_loop.simps [simp del]

text \<open>
  \<open>VertexBufferObjectsTest::verifyResults\<close>: the local array of \<open>width * height\<close> bytes
  is zeroed, the texture is bound, level 0 is read into the array, the texture is
  unbound and the array is checked.
\<close>

definition VertexBufferObjectsTest_verifyResults ::
  "driver \<Rightarrow> GLuint \<Rightarrow> gl_call list \<Rightarrow> (error + bool) \<times> gl_call list" where
  "VertexBufferObjectsTest_verifyResults gl texture_id =
     (let height = 8;
          width = 8;
          pixels = replicate (width * height) 0
      in then_do (Texture_Bind gl texture_id GL_TEXTURE_2D) (\<lambda>_.
         then_do (Texture_GetData gl 0 GL_TEXTURE_2D GL_RED_INTEGER GL_UNSIGNED_BYTE pixels)
           (\<lambda>pixels.
         then_do (Texture_Bind gl 0 GL_TEXTURE_2D) (\<lambda>_ calls.
           (Inr (verify_loop pixels 0), calls)))))"

definition VertexBufferObjectsTest_verifyValidResults ::
  "driver \<Rightarrow> GLuint \<Rightarrow> gl_call list \<Rightarrow> (error + bool) \<times> gl_call list" where
  "VertexBufferObjectsTest_verifyValidResults gl texture_id =
     VertexBufferObjectsTest_verifyResults gl texture_id"

definition VertexBufferObjectsTest_verifyInvalidResults ::
  "driver \<Rightarrow> GLuint \<Rightarrow> gl_call list \<Rightarrow> (error + bool) \<times> gl_call list" where
  "VertexBufferObjectsTest_verifyInvalidResults gl texture_id =
     then_do (VertexBufferObjectsTest_verifyResults gl texture_id)
       (\<lambda>result calls. (Inr (\<not> result), calls))"

section \<open>The feature check and the start of iterate\<close>

text \<open>
  Modelled from the spec: the context classes and \<open>glu::contextSupports\<close> belong to the
  test framework, which is not among the sources and which the spec treats as a black
  box. A context is what the feature check reads and writes: the answer of
  \<open>getContextInfo().isExtensionSupported\<close> for each name, the type that
  \<open>getRenderContext().getType()\<close> returns, and the result that
  \<open>getTestContext().setTestResult\<close> stores. \<open>contextSupports\<close> is a parameter.
\<close>

datatype qpTestResult = QP_TEST_RESULT_PASS | QP_TEST_RESULT_FAIL | QP_TEST_RESULT_NOT_SUPPORTED

datatype ApiType = core nat nat

datatype IterateResult = STOP | CONTINUE

record 'ct Context =
  isExtensionSupported :: "string \<Rightarrow> bool"
  getType :: 'ct
  testResult :: "(qpTestResult \<times> string) option"

definition isRobustBufferAccessBehaviorFeatureSupported ::
  "('ct \<Rightarrow> ApiType \<Rightarrow> bool) \<Rightarrow> 'ct Context \<Rightarrow> bool \<times> 'ct Context" where
  "isRobustBufferAccessBehaviorFeatureSupported contextSupports context =
     (let context_type = getType context
      in if isExtensionSupported context ''GL_KHR_robust_buffer_access_behavior'' \<or>
            isExtensionSupported context ''GL_ARB_robust_buffer_access_behavior'' \<or>
            contextSupports context_type (core 4 3)
         then (True, context)
         else (False, context\<lparr>testResult := Some (QP_TEST_RESULT_NOT_SUPPORTED, ''Not Supported'')\<rparr>))"

text \<open>
  The five functions \<open>VertexBufferObjectsTest::iterate\<close>, \<open>TexelFetchTest::iterate\<close>,
  \<open>ImageLoadStoreTest::iterate\<close>, \<open>StorageBufferTest::iterate\<close> and
  \<open>UniformBufferTest::iterate\<close> all start with the same two lines,
  \<open>if (!isRobustBufferAccessBehaviorFeatureSupported(m_context)) return STOP;\<close>.
  The statements after them differ from test to test and are the parameter \<open>rest\<close>;
  \<open>world\<close> is everything besides the context that they can reach: the fields of the
  test object and the calls issued to the driver.
\<close>

definition iterate ::
  "('ct \<Rightarrow> ApiType \<Rightarrow> bool) \<Rightarrow>
   ('ct Context \<times> 'w \<Rightarrow> (error + IterateResult) \<times> ('ct Context \<times> 'w)) \<Rightarrow>
   'ct Context \<times> 'w \<Rightarrow> (error + IterateResult) \<times> ('ct Context \<times> 'w)" where
  "iterate contextSupports rest =
     (\<lambda>(m_context, world).
        case isRobustBufferAccessBehaviorFeatureSupported contextSupports m_context of
          (supported, m_context) \<Rightarrow>
            if \<not> supported then (Inr STOP, (m_context, world))
            else rest (m_context, world))"

section \<open>Drivers, objects and notions for the statements\<close>

text \<open>
  Two drivers to run the wrappers on: one that never fails, one whose compiler rejects
  every shader with the log \<open>syntax error\<close>, of length 13 with its NUL. Both name a new
  object by the odd number \<open>2 n + 1\<close> when the creating call is the \<open>n\<close>-th call.
\<close>

definition willing_driver :: driver where
  "willing_driver =
     \<lparr>error_code = (\<lambda>calls. GL_NO_ERROR),
      object_name = (\<lambda>calls. push_bit 1 (of_nat (length calls)) OR 1),
      parameter = (\<lambda>calls. GL_TRUE),
      info_log = (\<lambda>calls. []),
      tex_image = (\<lambda>calls. replicate 64 255)\<rparr>"

definition rejecting_driver :: driver where
  "rejecting_driver =
     \<lparr>error_code = (\<lambda>calls. GL_NO_ERROR),
      object_name = (\<lambda>calls. push_bit 1 (of_nat (length calls)) OR 1),
      parameter = (\<lambda>calls. case rev calls of
                               getShaderiv shader pname # _ \<Rightarrow>
                                 if pname = GL_INFO_LOG_LENGTH then 13 else GL_FALSE
                             | _ \<Rightarrow> GL_FALSE),
      info_log = (\<lambda>calls. ''syntax error''),
      tex_image = (\<lambda>calls. replicate 64 128)\<rparr>"

text \<open>A program as the constructor \<open>Program::Program\<close> leaves it.\<close>

definition new_Program :: Program where
  "new_Program =
     \<lparr>Program.m_id = Program_m_invalid_id,
      m_compute = \<lparr>Shader.m_id = Shader_m_invalid_id\<rparr>,
      m_fragment = \<lparr>Shader.m_id = Shader_m_invalid_id\<rparr>,
      m_geometry = \<lparr>Shader.m_id = Shader_m_invalid_id\<rparr>,
      m_tess_ctrl = \<lparr>Shader.m_id = Shader_m_invalid_id\<rparr>,
      m_tess_eval = \<lparr>Shader.m_id = Shader_m_invalid_id\<rparr>,
      m_vertex = \<lparr>Shader.m_id = Shader_m_invalid_id\<rparr>\<rparr>"

text \<open>A driver that answers every \<open>getError\<close> with \<open>GL_INVALID_OPERATION\<close>.\<close>

definition failing_driver :: driver where
  "failing_driver =
     \<lparr>error_code = (\<lambda>calls. 0x0502),
      object_name = (\<lambda>calls. push_bit 1 (of_nat (length calls)) OR 1),
      parameter = (\<lambda>calls. GL_TRUE),
      info_log = (\<lambda>calls. []),
      tex_image = (\<lambda>calls. replicate 64 255)\<rparr>"

text \<open>A program that holds no GL object: its id and the ids of its six shaders are invalid.\<close>

definition Program_released :: "Program \<Rightarrow> bool" where
  "Program_released p =
     (Program.m_id p = Program_m_invalid_id \<and>
      Shader.m_id (m_compute p) = Shader_m_invalid_id \<and>
      Shader.m_id (m_fragment p) = Shader_m_invalid_id \<and>
      Shader.m_id (m_geometry p) = Shader_m_invalid_id \<and>
      Shader.m_id (m_tess_ctrl p) = Shader_m_invalid_id \<and>
      Shader.m_id (m_tess_eval p) = Shader_m_invalid_id \<and>
      Shader.m_id (m_vertex p) = Shader_m_invalid_id)"

text \<open>What \<open>Release\<close> does to a shader and to the six shaders of a program, for the proofs.\<close>

definition deleted_shader :: "Shader \<Rightarrow> gl_call list" where
  "deleted_shader s =
     (if Shader.m_id s = Shader_m_invalid_id then [] else [deleteShader (Shader.m_id s)])"

definition deleted_shaders :: "Program \<Rightarrow> gl_call list" where
  "deleted_shaders p =
     deleted_shader (m_compute p) @ deleted_shader (m_fragment p) @
     deleted_shader (m_geometry p) @ deleted_shader (m_tess_ctrl p) @
     deleted_shader (m_tess_eval p) @ deleted_shader (m_vertex p)"

definition without_shaders :: "Program \<Rightarrow> Program" where
  "without_shaders p =
     p\<lparr>m_compute := (m_compute p)\<lparr>Shader.m_id := Shader_m_invalid_id\<rparr>,
       m_fragment := (m_fragment p)\<lparr>Shader.m_id := Shader_m_invalid_id\<rparr>,
       m_geometry := (m_geometry p)\<lparr>Shader.m_id := Shader_m_invalid_id\<rparr>,
       m_tess_ctrl := (m_tess_ctrl p)\<lparr>Shader.m_id := Shader_m_invalid_id\<rparr>,
       m_tess_eval := (m_tess_eval p)\<lparr>Shader.m_id := Shader_m_invalid_id\<rparr>,
       m_vertex := (m_vertex p)\<lparr>Shader.m_id := Shader_m_invalid_id\<rparr>\<rparr>"

text \<open>
  A driver that delivers an image with 63 texels at 255 and the last one at 0, which
  is neither the drawn value nor the value 128 that \<open>cleanTexture\<close> fills in.
\<close>

definition one_texel_off_driver :: driver where
  "one_texel_off_driver =
     \<lparr>error_code = (\<lambda>calls. GL_NO_ERROR),
      object_name = (\<lambda>calls. push_bit 1 (of_nat (length calls)) OR 1),
      parameter = (\<lambda>calls. GL_TRUE),
      info_log = (\<lambda>calls. []),
      tex_image = (\<lambda>calls. replicate 63 255 @ [0])\<rparr>"

text \<open>
  A context for an OpenGL 4.2 core profile without the two extensions, and one with
  the ARB extension; the context type is the pair of version numbers, and
  \<open>version_at_least\<close> stands for \<open>contextSupports\<close> on it.
\<close>

definition gl42_context :: "(nat \<times> nat) Context" where
  "gl42_context =
     \<lparr>isExtensionSupported = (\<lambda>name. False), getType = (4, 2), testResult = None\<rparr>"

definition gl42_arb_context :: "(nat \<times> nat) Context" where
  "gl42_arb_context =
     \<lparr>isExtensionSupported = (\<lambda>name. name = ''GL_ARB_robust_buffer_access_behavior''),
      getType = (4, 2), testResult = None\<rparr>"

fun version_at_least :: "nat \<times> nat \<Rightarrow> ApiType \<Rightarrow> bool" where
  "version_at_least (major, minor) (core required_major required_minor) =
     (required_major < major \<or> (required_major = major \<and> required_minor \<le> minor))"

text \<open>Statements after the check that would issue a call and report a pass.\<close>

definition drawing_rest ::
  "(nat \<times> nat) Context \<times> gl_call list \<Rightarrow>
   (error + IterateResult) \<times> ((nat \<times> nat) Context \<times> gl_call list)" where
  "drawing_rest =
     (\<lambda>(m_context, calls).
        (Inr STOP, (m_context\<lparr>testResult := Some (QP_TEST_RESULT_PASS, ''Pass'')\<rparr>,
                    calls @ [createProgram])))"

text \<open>The pairs of program and shader named by the \<open>attachShader\<close> calls, in order.\<close>

definition attached :: "gl_call list \<Rightarrow> (GLuint \<times> GLuint) list" where
  "attached calls = concat (map (\<lambda>c. case c of attachShader p s \<Rightarrow> [(p, s)] | _ \<Rightarrow> []) calls)"

text \<open>
  A driver that reports no error, never returns the name 0 and answers every status
  query with \<open>GL_TRUE\<close>.
\<close>

definition cooperative :: "driver \<Rightarrow> bool" where
  "cooperative gl =
     (\<forall>calls. error_code gl calls = GL_NO_ERROR \<and> object_name gl calls \<noteq> 0 \<and>
              parameter gl calls = GL_TRUE)"

text \<open>The six shaders of a program, in the order in which \<open>Init\<close> attaches them.\<close>

definition Program_shaders :: "Program \<Rightarrow> Shader list" where
  "Program_shaders p =
     [m_compute p, m_fragment p, m_geometry p, m_tess_ctrl p, m_tess_eval p, m_vertex p]"

section \<open>Properties of find and replaceToken\<close>

lemma find_first_Some:
  "find_first token s = Some p \<Longrightarrow>
     occurs_at token s p \<and> (\<forall>j<p. \<not> occurs_at token s j)"
proof (induction s arbitrary: p)
  case Nil
  then show ?case by (simp add: occurs_at_def split: if_splits)
next
  case (Cons c cs)
  show ?case
  proof (cases "take (length token) (c # cs) = token")
    case True
    with Cons.prems show ?thesis by (simp add: occurs_at_def)
  next
    case False
    with Cons.prems obtain q where q: "find_first token cs = Some q" and p: "p = Suc q"
      by auto
    from Cons.IH [OF q] have occ: "occurs_at token cs q"
      and least: "\<forall>j<q. \<not> occurs_at token cs j" by auto
    have "occurs_at token (c # cs) (Suc q)"
      using occ by (simp add: occurs_at_def)
    moreover have "\<not> occurs_at token (c # cs) j" if "j < Suc q" for j
    proof (cases j)
      case 0
      with False show ?thesis by (simp add: occurs_at_def)
    next
      case (Suc k)
      with that least show ?thesis by (simp add: occurs_at_def)
    qed
    ultimately show ?thesis using p by blast
  qed
qed

lemma find_first_None:
  "find_first token s = None \<Longrightarrow> \<not> occurs_at token s j"
proof (induction s arbitrary: j)
  case Nil
  then show ?case by (auto simp add: occurs_at_def split: if_splits)
next
  case (Cons c cs)
  from Cons.prems have ne: "take (length token) (c # cs) \<noteq> token"
    and rest: "find_first token cs = None"
    by (auto split: if_splits)
  show ?case
  proof (cases j)
    case 0
    with ne show ?thesis by (simp add: occurs_at_def)
  next
    case (Suc k)
    with Cons.IH [OF rest, of k] show ?thesis by (simp add: occurs_at_def)
  qed
qed

lemma occurs_at_drop:
  "pos \<le> length s \<Longrightarrow> occurs_at token (drop pos s) i = occurs_at token s (pos + i)"
  by (auto simp add: occurs_at_def add.commute)

lemma find_string_found:
  assumes "search_position \<le> i" and "occurs_at token s i"
  shows "\<exists>p. find_string s token search_position = p \<and> search_position \<le> p \<and>
             occurs_at token s p \<and>
             (\<forall>j. search_position \<le> j \<and> j < p \<longrightarrow> \<not> occurs_at token s j)"
proof -
  from assms have le: "search_position \<le> length s"
    by (simp add: occurs_at_def)
  from assms le have "occurs_at token (drop search_position s) (i - search_position)"
    by (simp add: occurs_at_drop)
  then obtain q where q: "find_first token (drop search_position s) = Some q"
    using find_first_None by (cases "find_first token (drop search_position s)") auto
  from find_first_Some [OF q] le
  have occ: "occurs_at token s (search_position + q)"
    and least: "\<forall>j<q. \<not> occurs_at token s (search_position + j)"
    by (simp_all add: occurs_at_drop)
  have "\<not> occurs_at token s j" if "search_position \<le> j" "j < search_position + q" for j
  proof -
    from that have "j - search_position < q" by arith
    with least have "\<not> occurs_at token s (search_position + (j - search_position))" by blast
    with that show ?thesis by simp
  qed
  with q le occ show ?thesis
    by (auto simp add: find_string_def)
qed

lemma find_string_not_found:
  assumes "\<forall>i. search_position \<le> i \<longrightarrow> \<not> occurs_at token s i"
  shows "find_string s token search_position = npos"
proof (cases "length s < search_position")
  case True
  then show ?thesis by (simp add: find_string_def)
next
  case False
  then have le: "search_position \<le> length s" by simp
  have "find_first token (drop search_position s) = None"
  proof (cases "find_first token (drop search_position s)")
    case None
    then show ?thesis .
  next
    case (Some q)
    from find_first_Some [OF Some] le have "occurs_at token s (search_position + q)"
      by (simp add: occurs_at_drop)
    with assms show ?thesis by auto
  qed
  with le show ?thesis by (simp add: find_string_def)
qed

text \<open>
  C2. When the token occurs in the string at or after the search position,
  \<open>replaceToken\<close> returns normally; with \<open>p\<close> the first such occurrence, the string
  becomes the characters before \<open>p\<close>, then the text, then the characters after the
  token, and the search position becomes \<open>p + strlen(text)\<close>.
\<close>

theorem replaceToken_replaces_first_occurrence:
  assumes "search_position \<le> i" and "occurs_at token s i"
  shows "\<exists>p. search_position \<le> p \<and> occurs_at token s p \<and>
             (\<forall>j. search_position \<le> j \<and> j < p \<longrightarrow> \<not> occurs_at token s j) \<and>
             replaceToken token search_position text s =
               Inr (p + length text, take p s @ text @ drop (p + length token) s)"
proof -
  from find_string_found [OF assms] obtain p
    where p: "find_string s token search_position = p"
      and ge: "search_position \<le> p"
      and occ: "occurs_at token s p"
      and least: "\<forall>j. search_position \<le> j \<and> j < p \<longrightarrow> \<not> occurs_at token s j"
    by blast
  from occ have "p \<le> length s" by (simp add: occurs_at_def)
  with p have "replaceToken token search_position text s =
      Inr (p + length text, take p s @ text @ drop (p + length token) s)"
    by (simp add: replaceToken_def replace_string_def)
  with ge occ least show ?thesis by blast
qed

theorem replaceToken_replaces_first_occurrence_witness:
  "\<exists>p. 2 \<le> p \<and> occurs_at ''OFFSET'' ''a OFFSET + OFFSET;'' p \<and>
       (\<forall>j. 2 \<le> j \<and> j < p \<longrightarrow> \<not> occurs_at ''OFFSET'' ''a OFFSET + OFFSET;'' j) \<and>
       replaceToken ''OFFSET'' 2 ''16'' ''a OFFSET + OFFSET;'' =
         Inr (p + length ''16'',
              take p ''a OFFSET + OFFSET;'' @ ''16'' @
              drop (p + length ''OFFSET'') ''a OFFSET + OFFSET;'')"
proof (rule replaceToken_replaces_first_occurrence)
  show "(2::nat) \<le> 11" by simp
  show "occurs_at ''OFFSET'' ''a OFFSET + OFFSET;'' 11"
    by (simp add: occurs_at_def)
qed

text \<open>
  C8. \<open>replaceToken\<close> is partial. When the token occurs nowhere in the string at or
  after the search position, \<open>find\<close> returns \<open>npos\<close> and the call to \<open>replace\<close> throws
  \<open>std::out_of_range\<close>, which \<open>replaceToken\<close> lets through.
\<close>

theorem replaceToken_throws_when_token_absent:
  assumes "length s < npos"
    and "\<forall>i. search_position \<le> i \<longrightarrow> \<not> occurs_at token s i"
  shows "find_string s token search_position = npos \<and>
         replaceToken token search_position text s = Inl OutOfRange"
proof -
  from find_string_not_found [OF assms(2)]
  have "find_string s token search_position = npos" .
  with assms(1) show ?thesis
    by (simp add: replaceToken_def replace_string_def)
qed

theorem replaceToken_throws_when_token_absent_witness:
  "find_string ''void main()'' ''OFFSET'' 0 = npos \<and>
   replaceToken ''OFFSET'' 0 ''16'' ''void main()'' = Inl OutOfRange"
proof (rule replaceToken_throws_when_token_absent)
  show "length ''void main()'' < npos" by (simp add: npos_def)
  show "\<forall>i. 0 \<le> i \<longrightarrow> \<not> occurs_at ''OFFSET'' ''void main()'' i"
  proof (intro allI impI)
    fix i :: nat
    have "find_first ''OFFSET'' ''void main()'' = None" by simp
    then show "\<not> occurs_at ''OFFSET'' ''void main()'' i" by (rule find_first_None)
  qed
qed

section \<open>Shader sources\<close>

lemma decimal_value_decimal: "decimal_value (decimal n) = n"
proof (induction n rule: decimal.induct)
  case (1 n)
  show ?case
  proof (cases "n < 10")
    case True
    then show ?thesis
      by (simp add: decimal.simps [of n] decimal_value_def digit_value_def digit_char_def)
  next
    case False
    with 1 have ih: "decimal_value (decimal (n div 10)) = n div 10" by simp
    have "decimal_value (decimal n) =
            10 * decimal_value (decimal (n div 10)) + digit_value (digit_char (n mod 10))"
      using False by (simp add: decimal.simps [of n] decimal_value_def)
    also have "digit_value (digit_char (n mod 10)) = n mod 10"
      by (simp add: digit_value_def digit_char_def)
    finally show ?thesis using ih by simp
  qed
qed

lemma replaceToken_at:
  assumes "find_first token (drop pos s) = Some q" and "pos \<le> length s"
  shows "replaceToken token pos text s =
           Inr (pos + q + length text, take (pos + q) s @ text @ drop (pos + q + length token) s)"
proof -
  from find_first_Some [OF assms(1)] have "occurs_at token (drop pos s) q" by simp
  with assms(2) have "pos + q \<le> length s" by (auto simp add: occurs_at_def)
  with assms show ?thesis
    by (simp add: replaceToken_def find_string_def replace_string_def Let_def)
qed

text \<open>Two calls in a row on a template with the token at two known places.\<close>

lemma replaceToken_twice:
  assumes first: "find_first token (head @ token @ mid @ token @ tail) = Some (length head)"
    and second: "find_first token (mid @ token @ tail) = Some (length mid)"
  shows "(case replaceToken token 0 d (head @ token @ mid @ token @ tail) of
            Inl e \<Rightarrow> Inl e
          | Inr (position, source) \<Rightarrow>
              (case replaceToken token position s source of
                 Inl e \<Rightarrow> Inl e
               | Inr (position, source) \<Rightarrow> Inr source)) =
         Inr (head @ d @ mid @ s @ tail)"
proof -
  have one: "replaceToken token 0 d (head @ token @ mid @ token @ tail) =
               Inr (length head + length d, head @ d @ mid @ token @ tail)"
    using replaceToken_at [of token 0 "head @ token @ mid @ token @ tail" "length head" d] first
    by simp
  have "drop (length head + length d) (head @ d @ mid @ token @ tail) = mid @ token @ tail"
    by simp
  with second
  have "find_first token (drop (length head + length d) (head @ d @ mid @ token @ tail)) =
          Some (length mid)"
    by simp
  from replaceToken_at [OF this, of s]
  have two: "replaceToken token (length head + length d) s (head @ d @ mid @ token @ tail) =
               Inr (length head + length d + length mid + length s, head @ d @ mid @ s @ tail)"
    by simp
  show ?thesis by (simp add: one two)
qed

lemma StorageBufferTest_first_token:
  "find_first ''OFFSET'' (StorageBufferTest_cs_head @ ''OFFSET'' @ rest) =
     Some (length StorageBufferTest_cs_head)"
  by (simp add: StorageBufferTest_cs_head_def)

lemma UniformBufferTest_first_token:
  "find_first ''OFFSET'' (UniformBufferTest_cs_head @ ''OFFSET'' @ rest) =
     Some (length UniformBufferTest_cs_head)"
  by (simp add: UniformBufferTest_cs_head_def)

lemma second_token:
  "find_first ''OFFSET'' (cs_mid @ ''OFFSET'' @ rest) = Some (length cs_mid)"
  by (simp add: cs_mid_def)

text \<open>
  C5. \<open>StorageBufferTest::getComputeShader(offset)\<close> returns its template with the first
  \<open>OFFSET\<close> token (the destination index) replaced by the decimal digits of \<open>offset\<close>
  exactly in the case \<open>DESTINATION_INVALID\<close> and by \<open>0\<close> otherwise, and the second
  (the source index) by the digits of \<open>offset\<close> exactly in the case \<open>SOURCE_INVALID\<close>
  and by \<open>0\<close> otherwise. \<open>UniformBufferTest::getComputeShader\<close> does the same on its
  template, with the destination offset always \<open>0\<close>. The digits read back as the
  value of \<open>offset\<close>.
\<close>

theorem getComputeShader_replaces_offsets:
  "StorageBufferTest_getComputeShader sb offset =
     Inr (StorageBufferTest_cs_head @
          (if StorageBufferTest.m_test_case sb = DESTINATION_INVALID
             then decimal (unat offset) else ''0'') @
          cs_mid @
          (if StorageBufferTest.m_test_case sb = SOURCE_INVALID
             then decimal (unat offset) else ''0'') @
          cs_tail) \<and>
   UniformBufferTest_getComputeShader ub offset =
     Inr (UniformBufferTest_cs_head @ ''0'' @ cs_mid @
          (if UniformBufferTest.m_test_case ub = UniformBufferTest_VERSION.SOURCE_INVALID
             then decimal (unat offset) else ''0'') @
          cs_tail) \<and>
   decimal_value (decimal (unat offset)) = unat offset"
proof (intro conjI)
  note sb = replaceToken_twice [OF StorageBufferTest_first_token second_token]
  show "StorageBufferTest_getComputeShader sb offset =
     Inr (StorageBufferTest_cs_head @
          (if StorageBufferTest.m_test_case sb = DESTINATION_INVALID
             then decimal (unat offset) else ''0'') @
          cs_mid @
          (if StorageBufferTest.m_test_case sb = SOURCE_INVALID
             then decimal (unat offset) else ''0'') @
          cs_tail)"
    unfolding StorageBufferTest_getComputeShader_def StorageBufferTest_cs_def Let_def
    by (cases "StorageBufferTest.m_test_case sb") (simp_all only: sb split: if_splits, simp_all)
  note ub = replaceToken_twice [OF UniformBufferTest_first_token second_token]
  show "UniformBufferTest_getComputeShader ub offset =
     Inr (UniformBufferTest_cs_head @ ''0'' @ cs_mid @
          (if UniformBufferTest.m_test_case ub = UniformBufferTest_VERSION.SOURCE_INVALID
             then decimal (unat offset) else ''0'') @
          cs_tail)"
    unfolding UniformBufferTest_getComputeShader_def UniformBufferTest_cs_def Let_def
    by (simp only: ub split: if_splits)
  show "decimal_value (decimal (unat offset)) = unat offset"
    by (rule decimal_value_decimal)
qed

theorem getComputeShader_replaces_offsets_witness:
  "StorageBufferTest_getComputeShader
     \<lparr>StorageBufferTest.m_test_case = DESTINATION_INVALID, m_hasKhrRobustBufferAccess = True\<rparr> 4096 =
     Inr (StorageBufferTest_cs_head @ ''4096'' @ cs_mid @ ''0'' @ cs_tail) \<and>
   UniformBufferTest_getComputeShader
     \<lparr>UniformBufferTest.m_test_case = UniformBufferTest_VERSION.SOURCE_INVALID\<rparr> 4096 =
     Inr (UniformBufferTest_cs_head @ ''0'' @ cs_mid @ ''4096'' @ cs_tail)"
proof -
  have d: "decimal 4096 = ''4096''"
    by code_simp
  show ?thesis
    using getComputeShader_replaces_offsets
      [of "\<lparr>StorageBufferTest.m_test_case = DESTINATION_INVALID, m_hasKhrRobustBufferAccess = True\<rparr>"
          4096
          "\<lparr>UniformBufferTest.m_test_case = UniformBufferTest_VERSION.SOURCE_INVALID\<rparr>"]
    by (simp add: d)
qed

section \<open>Bytes of floats and memcmp\<close>

lemma byte_bit:
  fixes f :: GLfloat
  shows "m < 8 \<Longrightarrow> bit (ucast (drop_bit k f) :: byte) m = bit f (k + m)"
  by (simp add: bit_ucast_iff bit_drop_bit_eq)

lemma byte_eq_bits:
  fixes a b :: GLfloat
  assumes "(ucast (drop_bit k a) :: byte) = ucast (drop_bit k b)" and "k \<le> n" and "n < k + 8"
  shows "bit a n = bit b n"
proof -
  from assms(2,3) have m: "n - k < 8" and n: "n = k + (n - k)" by arith+
  have "bit a (k + (n - k)) = bit (ucast (drop_bit k a) :: byte) (n - k)"
    using m by (simp only: byte_bit)
  also have "\<dots> = bit (ucast (drop_bit k b) :: byte) (n - k)"
    by (simp only: assms(1))
  also have "\<dots> = bit b (k + (n - k))"
    using m by (simp only: byte_bit)
  finally show ?thesis using n by simp
qed

lemma float_bytes_inj:
  assumes "float_bytes a = float_bytes b"
  shows "a = b"
proof (rule bit_word_eqI)
  fix n :: nat
  assume "n < LENGTH(32)"
  then consider "0 \<le> n" "n < 0 + 8" | "8 \<le> n" "n < 8 + 8"
    | "16 \<le> n" "n < 16 + 8" | "24 \<le> n" "n < 24 + 8"
    by fastforce
  moreover from assms have
    "(ucast (drop_bit 0 a) :: byte) = ucast (drop_bit 0 b)"
    "(ucast (drop_bit 8 a) :: byte) = ucast (drop_bit 8 b)"
    "(ucast (drop_bit 16 a) :: byte) = ucast (drop_bit 16 b)"
    "(ucast (drop_bit 24 a) :: byte) = ucast (drop_bit 24 b)"
    by (simp_all add: float_bytes_def)
  ultimately show "bit a n = bit b n"
    by cases (rule byte_eq_bits, assumption+)+
qed

lemma length_float_bytes: "length (float_bytes f) = 4"
  by (simp add: float_bytes_def)

lemma length_array_bytes: "length (array_bytes fs) = 4 * length fs"
  by (induction fs) (simp_all add: array_bytes_def length_float_bytes)

lemma array_bytes_inj:
  "length xs = length ys \<Longrightarrow> array_bytes xs = array_bytes ys \<Longrightarrow> xs = ys"
proof (induction xs ys rule: list_induct2)
  case Nil
  then show ?case by simp
next
  case (Cons x xs y ys)
  from Cons.prems have "float_bytes x @ array_bytes xs = float_bytes y @ array_bytes ys"
    by (simp add: array_bytes_def)
  then have "float_bytes x = float_bytes y" and "array_bytes xs = array_bytes ys"
    by (simp_all add: length_float_bytes)
  with Cons.IH show ?case by (simp add: float_bytes_inj)
qed

lemma memcmp_zero_iff:
  "length xs = n \<Longrightarrow> length ys = n \<Longrightarrow> (memcmp xs ys n = 0) = (xs = ys)"
proof (induction xs ys n rule: memcmp.induct)
  case (1 a as b bs n)
  then show ?case by auto
qed auto

lemma memcmp_arrays:
  assumes "length xs = 4" and "length ys = 4"
  shows "(memcmp (array_bytes xs) (array_bytes ys) (4 * 4) = 0) = (array_bytes xs = array_bytes ys)"
    and "(array_bytes xs = array_bytes ys) = (xs = ys)"
proof -
  show "(memcmp (array_bytes xs) (array_bytes ys) (4 * 4) = 0) = (array_bytes xs = array_bytes ys)"
    by (rule memcmp_zero_iff) (simp_all add: length_array_bytes assms)
  show "(array_bytes xs = array_bytes ys) = (xs = ys)"
    using array_bytes_inj [of xs ys] assms by auto
qed

section \<open>UniformBufferTest::verifyResults\<close>

text \<open>
  C3. On a read-back array of four floats, \<open>UniformBufferTest::verifyResults\<close> returns
  true if and only if the sixteen bytes are those of the expected array of the current
  case, \<open>{2, 3, 4, 5}\<close> for \<open>VALID\<close> and \<open>{0, 0, 0, 0}\<close> for \<open>SOURCE_INVALID\<close>; the bytes
  agree exactly when the four bit patterns do.
\<close>

theorem UniformBufferTest_verifyResults_memcmp:
  assumes "length buffer_data = 4"
  shows "(UniformBufferTest.m_test_case this = UniformBufferTest_VERSION.VALID \<longrightarrow>
            fst (UniformBufferTest_verifyResults this buffer_data log) =
              Inr (array_bytes buffer_data = array_bytes [float_2, float_3, float_4, float_5]) \<and>
            (array_bytes buffer_data = array_bytes [float_2, float_3, float_4, float_5]) =
              (buffer_data = [float_2, float_3, float_4, float_5])) \<and>
         (UniformBufferTest.m_test_case this = UniformBufferTest_VERSION.SOURCE_INVALID \<longrightarrow>
            fst (UniformBufferTest_verifyResults this buffer_data log) =
              Inr (array_bytes buffer_data = array_bytes [float_0, float_0, float_0, float_0]) \<and>
            (array_bytes buffer_data = array_bytes [float_0, float_0, float_0, float_0]) =
              (buffer_data = [float_0, float_0, float_0, float_0]))"
proof -
  have valid: "(memcmp (array_bytes [float_2, float_3, float_4, float_5])
                  (array_bytes buffer_data) (4 * 4) = 0) =
               (array_bytes buffer_data = array_bytes [float_2, float_3, float_4, float_5])"
    using memcmp_arrays(1) [of "[float_2, float_3, float_4, float_5]" buffer_data] assms
    by auto
  have invalid: "(memcmp (array_bytes [float_0, float_0, float_0, float_0])
                    (array_bytes buffer_data) (4 * 4) = 0) =
                 (array_bytes buffer_data = array_bytes [float_0, float_0, float_0, float_0])"
    using memcmp_arrays(1) [of "[float_0, float_0, float_0, float_0]" buffer_data] assms
    by auto
  have eq_valid: "(array_bytes buffer_data = array_bytes [float_2, float_3, float_4, float_5]) =
                    (buffer_data = [float_2, float_3, float_4, float_5])"
    using memcmp_arrays(2) [of buffer_data "[float_2, float_3, float_4, float_5]"] assms
    by simp
  have eq_invalid: "(array_bytes buffer_data = array_bytes [float_0, float_0, float_0, float_0]) =
                      (buffer_data = [float_0, float_0, float_0, float_0])"
    using memcmp_arrays(2) [of buffer_data "[float_0, float_0, float_0, float_0]"] assms
    by simp
  show ?thesis
    unfolding UniformBufferTest_verifyResults_def Let_def
    using valid invalid eq_valid eq_invalid by simp
qed

theorem UniformBufferTest_verifyResults_memcmp_witness:
  "fst (UniformBufferTest_verifyResults
          \<lparr>UniformBufferTest.m_test_case = UniformBufferTest_VERSION.VALID\<rparr>
          [float_2, float_3, float_4, float_5] []) = Inr True \<and>
   fst (UniformBufferTest_verifyResults
          \<lparr>UniformBufferTest.m_test_case = UniformBufferTest_VERSION.SOURCE_INVALID\<rparr>
          [float_0, float_0, 0x80000000, float_0] []) = Inr False"
proof -
  have l1: "length [float_2, float_3, float_4, float_5] = 4" by simp
  have l2: "length [float_0, float_0, 0x80000000, float_0] = 4" by simp
  show ?thesis
    using UniformBufferTest_verifyResults_memcmp
        [OF l1, of "\<lparr>UniformBufferTest.m_test_case = UniformBufferTest_VERSION.VALID\<rparr>" "[]"]
      UniformBufferTest_verifyResults_memcmp
        [OF l2, of "\<lparr>UniformBufferTest.m_test_case = UniformBufferTest_VERSION.SOURCE_INVALID\<rparr>" "[]"]
    by (simp add: float_0_def)
qed

section \<open>StorageBufferTest::verifyResults\<close>

lemma source_data_loop_eq: "source_data_loop x 0 False = from_source_buffer x"
  by (simp add: source_data_loop.simps [of x] from_source_buffer_def m_source_data_def)

lemma invalid_source_loop_step:
  "b < 4 \<Longrightarrow>
     invalid_source_loop buffer_data name b log =
     invalid_source_loop buffer_data name (Suc b)
       (if float_eq (buffer_data ! b) float_0 \<or> from_source_buffer (buffer_data ! b)
        then log else log @ [failed_message name])"
  by (subst invalid_source_loop.simps) (simp add: Let_def source_data_loop_eq)

lemma invalid_source_loop_end:
  "\<not> b < 4 \<Longrightarrow> invalid_source_loop buffer_data name b log = log"
  by (subst invalid_source_loop.simps) simp

lemma invalid_destination_loop_step:
  "b < 4 \<Longrightarrow>
     invalid_destination_loop buffer_data name b log =
     invalid_destination_loop buffer_data name (Suc b)
       (if float_eq (buffer_data ! b) (m_destination_data ! b) \<or>
           from_source_buffer (buffer_data ! b)
        then log else log @ [failed_message name])"
  by (subst invalid_destination_loop.simps) (simp add: Let_def source_data_loop_eq)

lemma invalid_destination_loop_end:
  "\<not> b < 4 \<Longrightarrow> invalid_destination_loop buffer_data name b log = log"
  by (subst invalid_destination_loop.simps) simp

lemma invalid_source_loop_allowed:
  assumes "length buffer_data = 4"
    and "\<forall>x \<in> set buffer_data. float_eq x float_0 \<or> from_source_buffer x"
  shows "invalid_source_loop buffer_data name 0 log = log"
proof -
  have ok: "float_eq (buffer_data ! b) float_0 \<or> from_source_buffer (buffer_data ! b)"
    if "b < 4" for b
    using assms that by simp
  have "invalid_source_loop buffer_data name 0 log =
        invalid_source_loop buffer_data name (Suc 0) log"
    using ok [of 0] by (simp add: invalid_source_loop_step)
  also have "\<dots> = invalid_source_loop buffer_data name (Suc (Suc 0)) log"
    using ok [of "Suc 0"] by (simp add: invalid_source_loop_step)
  also have "\<dots> = invalid_source_loop buffer_data name (Suc (Suc (Suc 0))) log"
    using ok [of "Suc (Suc 0)"] by (simp add: invalid_source_loop_step)
  also have "\<dots> = invalid_source_loop buffer_data name (Suc (Suc (Suc (Suc 0)))) log"
    using ok [of "Suc (Suc (Suc 0))"] by (simp add: invalid_source_loop_step)
  also have "\<dots> = log"
    by (simp add: invalid_source_loop_end)
  finally show ?thesis .
qed

lemma invalid_destination_loop_allowed:
  assumes "length buffer_data = 4"
    and "\<forall>x \<in> set buffer_data. float_eq x float_1 \<or> from_source_buffer x"
  shows "invalid_destination_loop buffer_data name 0 log = log"
proof -
  have ok: "float_eq (buffer_data ! b) (m_destination_data ! b) \<or>
            from_source_buffer (buffer_data ! b)"
    if "b < 4" for b
  proof -
    from that have "m_destination_data ! b = float_1"
      by (auto simp add: m_destination_data_def nth_Cons' )
    with assms that show ?thesis by simp
  qed
  have "invalid_destination_loop buffer_data name 0 log =
        invalid_destination_loop buffer_data name (Suc 0) log"
    using ok [of 0] by (simp add: invalid_destination_loop_step)
  also have "\<dots> = invalid_destination_loop buffer_data name (Suc (Suc 0)) log"
    using ok [of "Suc 0"] by (simp add: invalid_destination_loop_step)
  also have "\<dots> = invalid_destination_loop buffer_data name (Suc (Suc (Suc 0))) log"
    using ok [of "Suc (Suc 0)"] by (simp add: invalid_destination_loop_step)
  also have "\<dots> = invalid_destination_loop buffer_data name (Suc (Suc (Suc (Suc 0)))) log"
    using ok [of "Suc (Suc (Suc 0))"] by (simp add: invalid_destination_loop_step)
  also have "\<dots> = log"
    by (simp add: invalid_destination_loop_end)
  finally show ?thesis .
qed

text \<open>
  On the robust path the two cases with invalid indices return \<open>true\<close> for every array:
  an element that is not allowed is reported in the log, and the result stays \<open>true\<close>.
\<close>

lemma StorageBufferTest_verifyResults_robust_path:
  assumes "m_hasKhrRobustBufferAccess this"
    and "StorageBufferTest.m_test_case this = SOURCE_INVALID \<or>
         StorageBufferTest.m_test_case this = DESTINATION_INVALID"
  shows "fst (StorageBufferTest_verifyResults this buffer_data log) = Inr True"
  using assms by (auto simp add: StorageBufferTest_verifyResults_def Let_def)

text \<open>
  C1, as the code has it. On a read-back array of four floats:
  in the case \<open>VALID\<close> the result is true iff the array is \<open>{2, 3, 4, 5}\<close>;
  off the robust path the case \<open>SOURCE_INVALID\<close> returns true iff the array is
  \<open>{0, 0, 0, 0}\<close> and the case \<open>DESTINATION_INVALID\<close> iff it is \<open>{1, 1, 1, 1}\<close>;
  on the robust path these two cases return true, and log nothing, whenever every
  element is an allowed value (zero or a source value, respectively the destination
  value \<open>1.0\<close> or a source value).
\<close>

theorem StorageBufferTest_verifyResults_cases:
  assumes "length buffer_data = 4"
  shows "(StorageBufferTest.m_test_case this = VALID \<longrightarrow>
            fst (StorageBufferTest_verifyResults this buffer_data log) =
              Inr (buffer_data = [float_2, float_3, float_4, float_5])) \<and>
         (StorageBufferTest.m_test_case this = SOURCE_INVALID \<and>
            \<not> m_hasKhrRobustBufferAccess this \<longrightarrow>
            fst (StorageBufferTest_verifyResults this buffer_data log) =
              Inr (buffer_data = [float_0, float_0, float_0, float_0])) \<and>
         (StorageBufferTest.m_test_case this = DESTINATION_INVALID \<and>
            \<not> m_hasKhrRobustBufferAccess this \<longrightarrow>
            fst (StorageBufferTest_verifyResults this buffer_data log) =
              Inr (buffer_data = [float_1, float_1, float_1, float_1])) \<and>
         ((StorageBufferTest.m_test_case this = SOURCE_INVALID \<or>
           StorageBufferTest.m_test_case this = DESTINATION_INVALID) \<and>
            m_hasKhrRobustBufferAccess this \<and>
            claimed_allowed (StorageBufferTest.m_test_case this) buffer_data \<longrightarrow>
            StorageBufferTest_verifyResults this buffer_data log = (Inr True, log))"
proof -
  have cmp: "(memcmp (array_bytes expected) (array_bytes buffer_data) (4 * 4) = 0) =
             (buffer_data = expected)" if "length expected = 4" for expected
    using memcmp_arrays [of expected buffer_data] that assms by auto
  have c2: "(memcmp (array_bytes [float_2, float_3, float_4, float_5])
               (array_bytes buffer_data) (4 * 4) = 0) =
            (buffer_data = [float_2, float_3, float_4, float_5])"
    by (rule cmp) simp
  have c0: "(memcmp (array_bytes [float_0, float_0, float_0, float_0])
               (array_bytes buffer_data) (4 * 4) = 0) =
            (buffer_data = [float_0, float_0, float_0, float_0])"
    by (rule cmp) simp
  have c1: "(memcmp (array_bytes [float_1, float_1, float_1, float_1])
               (array_bytes buffer_data) (4 * 4) = 0) =
            (buffer_data = [float_1, float_1, float_1, float_1])"
    by (rule cmp) simp
  show ?thesis
  proof (cases "StorageBufferTest.m_test_case this")
    case VALID
    then show ?thesis
      using c2 by (simp add: StorageBufferTest_verifyResults_def)
  next
    case SOURCE_INVALID
    show ?thesis
    proof (cases "m_hasKhrRobustBufferAccess this")
      case True
      with SOURCE_INVALID show ?thesis
        using invalid_source_loop_allowed [OF assms]
        by (simp add: StorageBufferTest_verifyResults_def claimed_allowed_def)
    next
      case False
      with SOURCE_INVALID show ?thesis
        using c0 by (simp add: StorageBufferTest_verifyResults_def)
    qed
  next
    case DESTINATION_INVALID
    show ?thesis
    proof (cases "m_hasKhrRobustBufferAccess this")
      case True
      with DESTINATION_INVALID show ?thesis
        using invalid_destination_loop_allowed [OF assms]
        by (simp add: StorageBufferTest_verifyResults_def claimed_allowed_def)
    next
      case False
      with DESTINATION_INVALID show ?thesis
        using c1 by (simp add: StorageBufferTest_verifyResults_def)
    qed
  next
    case LAST
    then show ?thesis by simp
  qed
qed

theorem StorageBufferTest_verifyResults_cases_witness:
  "fst (StorageBufferTest_verifyResults
          \<lparr>StorageBufferTest.m_test_case = VALID, m_hasKhrRobustBufferAccess = True\<rparr>
          [float_2, float_3, float_4, float_5] []) = Inr True \<and>
   fst (StorageBufferTest_verifyResults
          \<lparr>StorageBufferTest.m_test_case = SOURCE_INVALID, m_hasKhrRobustBufferAccess = False\<rparr>
          [float_0, float_0, float_0, float_0] []) = Inr True \<and>
   fst (StorageBufferTest_verifyResults
          \<lparr>StorageBufferTest.m_test_case = DESTINATION_INVALID, m_hasKhrRobustBufferAccess = False\<rparr>
          [float_1, float_2, float_1, float_1] []) = Inr False \<and>
   StorageBufferTest_verifyResults
     \<lparr>StorageBufferTest.m_test_case = DESTINATION_INVALID, m_hasKhrRobustBufferAccess = True\<rparr>
     [float_1, float_2, float_1, float_5] [] = (Inr True, [])"
proof -
  have l1: "length [float_2, float_3, float_4, float_5] = 4"
    and l2: "length [float_0, float_0, float_0, float_0] = 4"
    and l3: "length [float_1, float_2, float_1, float_1] = 4"
    and l4: "length [float_1, float_2, float_1, float_5] = 4"
    by simp_all
  have allowed: "claimed_allowed DESTINATION_INVALID [float_1, float_2, float_1, float_5]"
    by (simp add: claimed_allowed_def from_source_buffer_def m_source_data_def float_eq_def
        is_nan_def is_zero_def float_1_def float_2_def float_3_def float_4_def float_5_def)
  have ne: "float_1 \<noteq> float_2"
    by (simp add: float_1_def float_2_def)
  show ?thesis
    using StorageBufferTest_verifyResults_cases [OF l1,
        of "\<lparr>StorageBufferTest.m_test_case = VALID, m_hasKhrRobustBufferAccess = True\<rparr>" "[]"]
      StorageBufferTest_verifyResults_cases [OF l2,
        of "\<lparr>StorageBufferTest.m_test_case = SOURCE_INVALID, m_hasKhrRobustBufferAccess = False\<rparr>" "[]"]
      StorageBufferTest_verifyResults_cases [OF l3,
        of "\<lparr>StorageBufferTest.m_test_case = DESTINATION_INVALID, m_hasKhrRobustBufferAccess = False\<rparr>" "[]"]
      StorageBufferTest_verifyResults_cases [OF l4,
        of "\<lparr>StorageBufferTest.m_test_case = DESTINATION_INVALID, m_hasKhrRobustBufferAccess = True\<rparr>" "[]"]
      allowed ne
    by simp
qed

text \<open>
  C1 as stated fails in both directions. On the robust path an array of four times
  \<open>7.0\<close>, none of them an allowed value, is reported in the log four times and still
  accepted. Off the robust path an array of four times \<open>2.0\<close>, each a value of the
  source buffer, is rejected, because only \<open>{0, 0, 0, 0}\<close> is accepted there.
\<close>

theorem StorageBufferTest_verifyResults_counterexample:
  "StorageBufferTest_verifyResults
     \<lparr>StorageBufferTest.m_test_case = SOURCE_INVALID, m_hasKhrRobustBufferAccess = True\<rparr>
     [0x40E00000, 0x40E00000, 0x40E00000, 0x40E00000] [] =
     (Inr True, [failed_message ''invalid source indices'',
                 failed_message ''invalid source indices'',
                 failed_message ''invalid source indices'',
                 failed_message ''invalid source indices'']) \<and>
   \<not> claimed_allowed SOURCE_INVALID [0x40E00000, 0x40E00000, 0x40E00000, 0x40E00000] \<and>
   fst (StorageBufferTest_verifyResults
          \<lparr>StorageBufferTest.m_test_case = SOURCE_INVALID, m_hasKhrRobustBufferAccess = False\<rparr>
          [float_2, float_2, float_2, float_2] []) = Inr False \<and>
   claimed_allowed SOURCE_INVALID [float_2, float_2, float_2, float_2]"
proof (intro conjI)
  have seven: "\<not> float_eq 0x40E00000 float_0" "\<not> from_source_buffer 0x40E00000"
    by (simp_all add: from_source_buffer_def m_source_data_def float_eq_def
        is_nan_def is_zero_def float_0_def float_2_def float_3_def float_4_def float_5_def)
  show "StorageBufferTest_verifyResults
     \<lparr>StorageBufferTest.m_test_case = SOURCE_INVALID, m_hasKhrRobustBufferAccess = True\<rparr>
     [0x40E00000, 0x40E00000, 0x40E00000, 0x40E00000] [] =
     (Inr True, [failed_message ''invalid source indices'',
                 failed_message ''invalid source indices'',
                 failed_message ''invalid source indices'',
                 failed_message ''invalid source indices''])"
    by (simp add: StorageBufferTest_verifyResults_def Let_def
        invalid_source_loop_step invalid_source_loop_end seven)
  show "\<not> claimed_allowed SOURCE_INVALID [0x40E00000, 0x40E00000, 0x40E00000, 0x40E00000]"
    by (simp add: claimed_allowed_def seven)
  have two: "from_source_buffer float_2"
    by (simp add: from_source_buffer_def m_source_data_def float_eq_def
        is_nan_def is_zero_def float_2_def)
  show "claimed_allowed SOURCE_INVALID [float_2, float_2, float_2, float_2]"
    by (simp add: claimed_allowed_def two)
  have l: "length [float_2, float_2, float_2, float_2] = 4" by simp
  have ne: "float_2 \<noteq> float_0" by (simp add: float_0_def float_2_def)
  have "(memcmp (array_bytes [float_0, float_0, float_0, float_0])
           (array_bytes [float_2, float_2, float_2, float_2]) (4 * 4) = 0) =
        ([float_0, float_0, float_0, float_0] = [float_2, float_2, float_2, float_2])"
    using memcmp_arrays [of "[float_0, float_0, float_0, float_0]"
        "[float_2, float_2, float_2, float_2]"]
    by simp
  with ne show "fst (StorageBufferTest_verifyResults
          \<lparr>StorageBufferTest.m_test_case = SOURCE_INVALID, m_hasKhrRobustBufferAccess = False\<rparr>
          [float_2, float_2, float_2, float_2] []) = Inr False"
    by (simp add: StorageBufferTest_verifyResults_def Let_def)
qed

section \<open>Release\<close>

lemma Buffer_Release_eq:
  "Buffer_Release (b, calls) =
     (Inr (), (b\<lparr>Buffer.m_id := Buffer_m_invalid_id\<rparr>,
               calls @ (if Buffer.m_id b = Buffer_m_invalid_id then []
                        else [deleteBuffers (Buffer.m_id b)])))"
  by (simp add: Buffer_Release_def)

lemma Framebuffer_Release_eq:
  "Framebuffer_Release (f, calls) =
     (Inr (), (f\<lparr>Framebuffer.m_id := Framebuffer_m_invalid_id\<rparr>,
               calls @ (if Framebuffer.m_id f = Framebuffer_m_invalid_id then []
                        else [deleteFramebuffers (Framebuffer.m_id f)])))"
  by (simp add: Framebuffer_Release_def)

lemma Texture_Release_eq:
  "Texture_Release (t, calls) =
     (Inr (), (t\<lparr>Texture.m_id := Texture_m_invalid_id\<rparr>,
               calls @ (if Texture.m_id t = Texture_m_invalid_id then []
                        else [deleteTextures (Texture.m_id t)])))"
  by (simp add: Texture_Release_def)

lemma Shader_Release_eq:
  "Shader_Release (s, calls) =
     (Inr (), (s\<lparr>Shader.m_id := Shader_m_invalid_id\<rparr>, calls @ deleted_shader s))"
  by (simp add: Shader_Release_def deleted_shader_def)

lemma VertexArray_Release_eq:
  "VertexArray_Release gl (v, calls) =
     (if VertexArray.m_id v = VertexArray_m_invalid_id then (Inr (), (v, calls))
      else if error_code gl (calls @ [bindVertexArray 0, getError]) = GL_NO_ERROR
      then (Inr (), (v\<lparr>VertexArray.m_id := VertexArray_m_invalid_id\<rparr>,
                     calls @ [bindVertexArray 0, getError,
                              deleteVertexArrays (VertexArray.m_id v)]))
      else (Inl (GLError ''BindVertexArray''), (v, calls @ [bindVertexArray 0, getError])))"
  by (simp add: VertexArray_Release_def VertexArray_Bind_def on_gl_def call_def
      GLU_EXPECT_NO_ERROR_def Let_def)

lemma Program_Release_eq:
  "Program_Release gl (p, calls) =
     (if Program.m_id p = Program_m_invalid_id
      then (Inr (), (without_shaders p, calls @ deleted_shaders p))
      else if error_code gl (calls @ [useProgram Program_m_invalid_id, getError]) = GL_NO_ERROR
      then (Inr (), (without_shaders (p\<lparr>Program.m_id := Program_m_invalid_id\<rparr>),
                     calls @ [useProgram Program_m_invalid_id, getError,
                              deleteProgram (Program.m_id p)] @ deleted_shaders p))
      else (Inl (GLError ''UseProgram''),
            (p, calls @ [useProgram Program_m_invalid_id, getError])))"
  by (simp add: Program_Release_def Program_Use_def on_gl_def on_member_def call_def
      GLU_EXPECT_NO_ERROR_def Let_def Shader_Release_eq without_shaders_def deleted_shaders_def)

lemma without_shaders_released:
  "Program.m_id p = Program_m_invalid_id \<Longrightarrow> Program_released (without_shaders p)"
  by (simp add: Program_released_def without_shaders_def)

lemma released_without_shaders:
  "Program_released p \<Longrightarrow> without_shaders p = p \<and> deleted_shaders p = []"
  by (simp add: Program_released_def without_shaders_def deleted_shaders_def deleted_shader_def)

lemma Buffer_Release_facts:
  "fst (Buffer_Release (b, calls)) = Inr () \<and>
   Buffer.m_id (fst (snd (Buffer_Release (b, calls)))) = Buffer_m_invalid_id \<and>
   (Buffer.m_id b = Buffer_m_invalid_id \<longrightarrow> Buffer_Release (b, calls) = (Inr (), (b, calls))) \<and>
   Buffer_Release (snd (Buffer_Release (b, calls))) = (Inr (), snd (Buffer_Release (b, calls)))"
  by (simp add: Buffer_Release_def)

lemma Framebuffer_Release_facts:
  "fst (Framebuffer_Release (f, calls)) = Inr () \<and>
   Framebuffer.m_id (fst (snd (Framebuffer_Release (f, calls)))) = Framebuffer_m_invalid_id \<and>
   (Framebuffer.m_id f = Framebuffer_m_invalid_id \<longrightarrow>
      Framebuffer_Release (f, calls) = (Inr (), (f, calls))) \<and>
   Framebuffer_Release (snd (Framebuffer_Release (f, calls))) =
     (Inr (), snd (Framebuffer_Release (f, calls)))"
  by (simp add: Framebuffer_Release_def)

lemma Texture_Release_facts:
  "fst (Texture_Release (t, calls)) = Inr () \<and>
   Texture.m_id (fst (snd (Texture_Release (t, calls)))) = Texture_m_invalid_id \<and>
   (Texture.m_id t = Texture_m_invalid_id \<longrightarrow> Texture_Release (t, calls) = (Inr (), (t, calls))) \<and>
   Texture_Release (snd (Texture_Release (t, calls))) = (Inr (), snd (Texture_Release (t, calls)))"
  by (simp add: Texture_Release_def)

lemma Shader_Release_facts:
  "fst (Shader_Release (s, calls)) = Inr () \<and>
   Shader.m_id (fst (snd (Shader_Release (s, calls)))) = Shader_m_invalid_id \<and>
   (Shader.m_id s = Shader_m_invalid_id \<longrightarrow> Shader_Release (s, calls) = (Inr (), (s, calls))) \<and>
   Shader_Release (snd (Shader_Release (s, calls))) = (Inr (), snd (Shader_Release (s, calls)))"
  by (simp add: Shader_Release_def)

lemma VertexArray_Release_facts:
  "(fst (VertexArray_Release gl (v, calls)) = Inr () \<longrightarrow>
      VertexArray.m_id (fst (snd (VertexArray_Release gl (v, calls)))) = VertexArray_m_invalid_id \<and>
      VertexArray_Release gl' (snd (VertexArray_Release gl (v, calls))) =
        (Inr (), snd (VertexArray_Release gl (v, calls)))) \<and>
   (VertexArray.m_id v = VertexArray_m_invalid_id \<longrightarrow>
      VertexArray_Release gl (v, calls) = (Inr (), (v, calls)))"
  by (simp add: VertexArray_Release_eq)

lemma Program_Release_facts:
  "(fst (Program_Release gl (p, calls)) = Inr () \<longrightarrow>
      Program_released (fst (snd (Program_Release gl (p, calls)))) \<and>
      Program_Release gl' (snd (Program_Release gl (p, calls))) =
        (Inr (), snd (Program_Release gl (p, calls)))) \<and>
   (Program_released p \<longrightarrow> Program_Release gl (p, calls) = (Inr (), (p, calls)))"
proof (intro conjI impI)
  assume ok: "fst (Program_Release gl (p, calls)) = Inr ()"
  obtain p' calls' where r: "snd (Program_Release gl (p, calls)) = (p', calls')"
    by (cases "snd (Program_Release gl (p, calls))")
  from ok r have rel: "Program_released p'"
    by (auto simp add: Program_Release_eq without_shaders_released split: if_splits)
  from rel r show "Program_released (fst (snd (Program_Release gl (p, calls))))"
    by simp
  from rel have "Program_Release gl' (p', calls') = (Inr (), (p', calls'))"
    by (simp add: Program_Release_eq released_without_shaders Program_released_def)
  with r show "Program_Release gl' (snd (Program_Release gl (p, calls))) =
                 (Inr (), snd (Program_Release gl (p, calls)))"
    by simp
next
  assume "Program_released p"
  then show "Program_Release gl (p, calls) = (Inr (), (p, calls))"
    by (simp add: Program_Release_eq released_without_shaders Program_released_def)
qed

text \<open>
  C7, as the code has it. \<open>Release()\<close> of a \<open>Buffer\<close>, \<open>Framebuffer\<close>, \<open>Texture\<close> or \<open>Shader\<close>
  always returns, leaves \<open>m_id == m_invalid_id\<close>, and issues no call and changes nothing
  when \<open>m_id\<close> is already invalid. \<open>VertexArray::Release()\<close> does the same whenever it
  returns (it throws when the driver reports an error after \<open>bindVertexArray(0)\<close>).
  \<open>Program::Release()\<close>, whenever it returns, leaves the id of the program and the ids
  of its six shaders invalid, and it issues no call and changes nothing when all seven
  are already invalid. In each class a second \<open>Release()\<close>, as the destructor runs it,
  after one that returned issues no call and changes nothing, so nothing is deleted
  twice.
\<close>

theorem Release_postcondition_and_idempotence:
  "(fst (Buffer_Release (b, calls)) = Inr () \<and>
    Buffer.m_id (fst (snd (Buffer_Release (b, calls)))) = Buffer_m_invalid_id \<and>
    (Buffer.m_id b = Buffer_m_invalid_id \<longrightarrow> Buffer_Release (b, calls) = (Inr (), (b, calls))) \<and>
    Buffer_Release (snd (Buffer_Release (b, calls))) = (Inr (), snd (Buffer_Release (b, calls)))) \<and>
   (fst (Framebuffer_Release (f, calls)) = Inr () \<and>
    Framebuffer.m_id (fst (snd (Framebuffer_Release (f, calls)))) = Framebuffer_m_invalid_id \<and>
    (Framebuffer.m_id f = Framebuffer_m_invalid_id \<longrightarrow>
       Framebuffer_Release (f, calls) = (Inr (), (f, calls))) \<and>
    Framebuffer_Release (snd (Framebuffer_Release (f, calls))) =
      (Inr (), snd (Framebuffer_Release (f, calls)))) \<and>
   (fst (Texture_Release (t, calls)) = Inr () \<and>
    Texture.m_id (fst (snd (Texture_Release (t, calls)))) = Texture_m_invalid_id \<and>
    (Texture.m_id t = Texture_m_invalid_id \<longrightarrow> Texture_Release (t, calls) = (Inr (), (t, calls))) \<and>
    Texture_Release (snd (Texture_Release (t, calls))) = (Inr (), snd (Texture_Release (t, calls)))) \<and>
   (fst (Shader_Release (s, calls)) = Inr () \<and>
    Shader.m_id (fst (snd (Shader_Release (s, calls)))) = Shader_m_invalid_id \<and>
    (Shader.m_id s = Shader_m_invalid_id \<longrightarrow> Shader_Release (s, calls) = (Inr (), (s, calls))) \<and>
    Shader_Release (snd (Shader_Release (s, calls))) = (Inr (), snd (Shader_Release (s, calls)))) \<and>
   ((fst (VertexArray_Release gl (v, calls)) = Inr () \<longrightarrow>
       VertexArray.m_id (fst (snd (VertexArray_Release gl (v, calls)))) = VertexArray_m_invalid_id \<and>
       VertexArray_Release gl' (snd (VertexArray_Release gl (v, calls))) =
         (Inr (), snd (VertexArray_Release gl (v, calls)))) \<and>
    (VertexArray.m_id v = VertexArray_m_invalid_id \<longrightarrow>
       VertexArray_Release gl (v, calls) = (Inr (), (v, calls)))) \<and>
   ((fst (Program_Release gl (p, calls)) = Inr () \<longrightarrow>
       Program_released (fst (snd (Program_Release gl (p, calls)))) \<and>
       Program_Release gl' (snd (Program_Release gl (p, calls))) =
         (Inr (), snd (Program_Release gl (p, calls)))) \<and>
    (Program_released p \<longrightarrow> Program_Release gl (p, calls) = (Inr (), (p, calls))))"
  by (intro conjI Buffer_Release_facts Framebuffer_Release_facts Texture_Release_facts
      Shader_Release_facts VertexArray_Release_facts Program_Release_facts)

theorem Release_postcondition_and_idempotence_witness:
  "Program_released
     (fst (snd (Program_Release willing_driver
        (new_Program\<lparr>Program.m_id := 9, m_compute := \<lparr>Shader.m_id = 1\<rparr>\<rparr>, [])))) \<and>
   Program_Release willing_driver (new_Program, []) = (Inr (), (new_Program, [])) \<and>
   VertexArray.m_id
     (fst (snd (VertexArray_Release willing_driver (\<lparr>VertexArray.m_id = 3\<rparr>, [])))) =
     VertexArray_m_invalid_id \<and>
   Buffer_Release (\<lparr>Buffer.m_id = Buffer_m_invalid_id, m_target = 0\<rparr>, []) =
     (Inr (), (\<lparr>Buffer.m_id = Buffer_m_invalid_id, m_target = 0\<rparr>, []))"
proof -
  have p: "fst (Program_Release willing_driver
                  (new_Program\<lparr>Program.m_id := 9, m_compute := \<lparr>Shader.m_id = 1\<rparr>\<rparr>, [])) = Inr ()"
    by (simp add: Program_Release_eq new_Program_def willing_driver_def
        Program_m_invalid_id_def)
  have n: "Program_released new_Program"
    by (simp add: Program_released_def new_Program_def)
  have v: "fst (VertexArray_Release willing_driver (\<lparr>VertexArray.m_id = 3\<rparr>, [])) = Inr ()"
    by (simp add: VertexArray_Release_eq willing_driver_def VertexArray_m_invalid_id_def)
  show ?thesis
    using Release_postcondition_and_idempotence
      [where b = "\<lparr>Buffer.m_id = Buffer_m_invalid_id, m_target = 0\<rparr>" and calls = "[]"
         and gl = willing_driver and v = "\<lparr>VertexArray.m_id = 3\<rparr>"
         and p = "new_Program\<lparr>Program.m_id := 9, m_compute := \<lparr>Shader.m_id = 1\<rparr>\<rparr>"]
      Release_postcondition_and_idempotence
      [where calls = "[]" and gl = willing_driver and p = new_Program]
      p n v
    by simp
qed

text \<open>
  C7 as stated fails for \<open>Program\<close>. A program whose compute shader does not compile is
  left by \<open>Init\<close> with \<open>m_id == m_invalid_id\<close> and a live compute shader; \<open>Release()\<close> on it
  deletes that shader and changes the object, although \<open>m_id\<close> was already invalid.
  And \<open>VertexArray::Release()\<close> throws, with \<open>m_id\<close> as it was, when the driver reports
  an error.
\<close>

theorem Release_counterexample:
  "Program_Init rejecting_driver ''cs'' [] [] [] [] [] (new_Program, []) =
     (Inl (TestError ''syntax error''),
      (new_Program\<lparr>m_compute := \<lparr>Shader.m_id = 3\<rparr>\<rparr>,
       [createShader GL_COMPUTE_SHADER, getError, shaderSource 3 ''cs'', getError,
        compileShader 3, getError, getShaderiv 3 GL_COMPILE_STATUS, getError,
        getShaderiv 3 GL_INFO_LOG_LENGTH, getError, getShaderInfoLog 3 13, getError])) \<and>
   Program.m_id (new_Program\<lparr>m_compute := \<lparr>Shader.m_id = 3\<rparr>\<rparr>) = Program_m_invalid_id \<and>
   Program_Release rejecting_driver (new_Program\<lparr>m_compute := \<lparr>Shader.m_id = 3\<rparr>\<rparr>, []) =
     (Inr (), (new_Program, [deleteShader 3])) \<and>
   VertexArray_Release failing_driver (\<lparr>VertexArray.m_id = 3\<rparr>, []) =
     (Inl (GLError ''BindVertexArray''), (\<lparr>VertexArray.m_id = 3\<rparr>, [bindVertexArray 0, getError]))"
proof (intro conjI)
  show "Program_Init rejecting_driver ''cs'' [] [] [] [] [] (new_Program, []) =
     (Inl (TestError ''syntax error''),
      (new_Program\<lparr>m_compute := \<lparr>Shader.m_id = 3\<rparr>\<rparr>,
       [createShader GL_COMPUTE_SHADER, getError, shaderSource 3 ''cs'', getError,
        compileShader 3, getError, getShaderiv 3 GL_COMPILE_STATUS, getError,
        getShaderiv 3 GL_INFO_LOG_LENGTH, getError, getShaderInfoLog 3 13, getError]))"
    by (simp add: Program_Init_def Program_Release_eq new_Program_def on_member_def on_gl_def
        Shader_Init_def Shader_Release_eq Shader_Create_def Shader_Source_def Shader_Compile_def
        then_do_def call_def GLU_EXPECT_NO_ERROR_def Let_def rejecting_driver_def
        without_shaders_def deleted_shaders_def deleted_shader_def info_message_def
        Program_m_invalid_id_def Shader_m_invalid_id_def GL_NO_ERROR_def GL_TRUE_def GL_FALSE_def
        GL_INFO_LOG_LENGTH_def GL_COMPILE_STATUS_def)
  show "Program.m_id (new_Program\<lparr>m_compute := \<lparr>Shader.m_id = 3\<rparr>\<rparr>) = Program_m_invalid_id"
    by (simp add: new_Program_def)
  show "Program_Release rejecting_driver (new_Program\<lparr>m_compute := \<lparr>Shader.m_id = 3\<rparr>\<rparr>, []) =
     (Inr (), (new_Program, [deleteShader 3]))"
    by (simp add: Program_Release_eq new_Program_def without_shaders_def deleted_shaders_def
        deleted_shader_def Shader_m_invalid_id_def)
  show "VertexArray_Release failing_driver (\<lparr>VertexArray.m_id = 3\<rparr>, []) =
     (Inl (GLError ''BindVertexArray''), (\<lparr>VertexArray.m_id = 3\<rparr>, [bindVertexArray 0, getError]))"
    by (simp add: VertexArray_Release_eq failing_driver_def VertexArray_m_invalid_id_def
        GL_NO_ERROR_def)
qed

section \<open>VertexBufferObjectsTest: reading the image back\<close>

lemma verify_loop_iff:
  "verify_loop pixels i = (\<forall>j. i \<le> j \<and> j < 64 \<longrightarrow> pixels ! j = 255)"
proof (induction pixels i rule: verify_loop.induct)
  case (1 pixels i)
  show ?case
  proof (cases "i < 64")
    case False
    then show ?thesis by (auto simp add: verify_loop.simps [of pixels i])
  next
    case True
    show ?thesis
    proof (cases "pixels ! i = 255")
      case False
      with True show ?thesis
        by (auto simp add: verify_loop.simps [of pixels i])
    next
      case eq: True
      with True 1 have ih: "verify_loop pixels (Suc i) =
                              (\<forall>j. Suc i \<le> j \<and> j < 64 \<longrightarrow> pixels ! j = 255)"
        by simp
      have "(\<forall>j. i \<le> j \<and> j < 64 \<longrightarrow> pixels ! j = 255) =
            (\<forall>j. Suc i \<le> j \<and> j < 64 \<longrightarrow> pixels ! j = 255)"
        using eq by (metis Suc_leD Suc_leI le_neq_implies_less)
      with True eq ih show ?thesis
        by (simp add: verify_loop.simps [of pixels i])
    qed
  qed
qed

text \<open>
  With no error from the driver, \<open>verifyResults\<close> issues its three calls, each followed
  by \<open>getError\<close>, and checks the array that \<open>getTexImage\<close> has written over the zeros.
\<close>

lemma verifyResults_eq:
  assumes "error_code gl (calls @ [bindTexture GL_TEXTURE_2D texture_id, getError]) = GL_NO_ERROR"
    and "error_code gl (calls @ [bindTexture GL_TEXTURE_2D texture_id, getError,
           getTexImage GL_TEXTURE_2D 0 GL_RED_INTEGER GL_UNSIGNED_BYTE, getError]) = GL_NO_ERROR"
    and "error_code gl (calls @ [bindTexture GL_TEXTURE_2D texture_id, getError,
           getTexImage GL_TEXTURE_2D 0 GL_RED_INTEGER GL_UNSIGNED_BYTE, getError,
           bindTexture GL_TEXTURE_2D 0, getError]) = GL_NO_ERROR"
    and "tex_image gl (calls @ [bindTexture GL_TEXTURE_2D texture_id, getError,
           getTexImage GL_TEXTURE_2D 0 GL_RED_INTEGER GL_UNSIGNED_BYTE]) = texels"
  shows "VertexBufferObjectsTest_verifyResults gl texture_id calls =
           (Inr (verify_loop (texels @ drop (length texels) (replicate 64 0)) 0),
            calls @ [bindTexture GL_TEXTURE_2D texture_id, getError,
                     getTexImage GL_TEXTURE_2D 0 GL_RED_INTEGER GL_UNSIGNED_BYTE, getError,
                     bindTexture GL_TEXTURE_2D 0, getError])"
  using assms
  by (simp add: VertexBufferObjectsTest_verifyResults_def Texture_Bind_def Texture_GetData_def
      then_do_def call_def GLU_EXPECT_NO_ERROR_def Let_def)

lemma read_back_all_255:
  assumes "length texels = 64"
  shows "verify_loop (texels @ drop (length texels) (replicate 64 0)) 0 =
           (\<forall>i<64. texels ! i = 255)"
  using assms by (simp add: verify_loop_iff)

text \<open>
  C4. When the driver reports no error and \<open>getTexImage\<close> delivers the 64 bytes of level
  0 of the 8 x 8 texture, \<open>verifyValidResults\<close> returns true if and only if each of the
  64 bytes is 255.
\<close>

theorem verifyValidResults_all_255:
  assumes "error_code gl (calls @ [bindTexture GL_TEXTURE_2D texture_id, getError]) = GL_NO_ERROR"
    and "error_code gl (calls @ [bindTexture GL_TEXTURE_2D texture_id, getError,
           getTexImage GL_TEXTURE_2D 0 GL_RED_INTEGER GL_UNSIGNED_BYTE, getError]) = GL_NO_ERROR"
    and "error_code gl (calls @ [bindTexture GL_TEXTURE_2D texture_id, getError,
           getTexImage GL_TEXTURE_2D 0 GL_RED_INTEGER GL_UNSIGNED_BYTE, getError,
           bindTexture GL_TEXTURE_2D 0, getError]) = GL_NO_ERROR"
    and "tex_image gl (calls @ [bindTexture GL_TEXTURE_2D texture_id, getError,
           getTexImage GL_TEXTURE_2D 0 GL_RED_INTEGER GL_UNSIGNED_BYTE]) = texels"
    and "length texels = 64"
  shows "fst (VertexBufferObjectsTest_verifyValidResults gl texture_id calls) =
           Inr (\<forall>i<64. texels ! i = 255)"
  unfolding VertexBufferObjectsTest_verifyValidResults_def
  using verifyResults_eq [OF assms(1-4)] read_back_all_255 [OF assms(5)]
  by simp

theorem verifyValidResults_all_255_witness:
  "fst (VertexBufferObjectsTest_verifyValidResults willing_driver 5 []) = Inr True \<and>
   fst (VertexBufferObjectsTest_verifyValidResults rejecting_driver 5 []) = Inr False"
proof -
  have w: "(\<forall>i<64. replicate 64 (255 :: byte) ! i = 255) = True"
    by simp
  have r: "(\<forall>i<64. replicate 64 (128 :: byte) ! i = 255) = False"
  proof -
    have "(0 :: nat) < 64 \<and> replicate 64 (128 :: byte) ! 0 \<noteq> 255" by simp
    then show ?thesis by blast
  qed
  have "fst (VertexBufferObjectsTest_verifyValidResults willing_driver 5 []) =
          Inr (\<forall>i<64. replicate 64 (255 :: byte) ! i = 255)"
    by (rule verifyValidResults_all_255)
      (simp_all add: willing_driver_def)
  moreover have "fst (VertexBufferObjectsTest_verifyValidResults rejecting_driver 5 []) =
          Inr (\<forall>i<64. replicate 64 (128 :: byte) ! i = 255)"
    by (rule verifyValidResults_all_255)
      (simp_all add: rejecting_driver_def)
  ultimately show ?thesis
    by (simp only: w r)
qed

text \<open>
  C9. \<open>verifyInvalidResults\<close> returns the negation of what \<open>verifyResults\<close> returns, with
  the same calls, and throws what it throws. So, when the driver reports no error and
  delivers 64 bytes, the draw is accepted exactly when some byte differs from 255,
  whatever the other bytes are.
\<close>

theorem verifyInvalidResults_negates:
  "VertexBufferObjectsTest_verifyInvalidResults gl texture_id calls =
     (case VertexBufferObjectsTest_verifyResults gl texture_id calls of
        (Inl e, calls') \<Rightarrow> (Inl e, calls')
      | (Inr result, calls') \<Rightarrow> (Inr (\<not> result), calls')) \<and>
   (error_code gl (calls @ [bindTexture GL_TEXTURE_2D texture_id, getError]) = GL_NO_ERROR \<and>
    error_code gl (calls @ [bindTexture GL_TEXTURE_2D texture_id, getError,
      getTexImage GL_TEXTURE_2D 0 GL_RED_INTEGER GL_UNSIGNED_BYTE, getError]) = GL_NO_ERROR \<and>
    error_code gl (calls @ [bindTexture GL_TEXTURE_2D texture_id, getError,
      getTexImage GL_TEXTURE_2D 0 GL_RED_INTEGER GL_UNSIGNED_BYTE, getError,
      bindTexture GL_TEXTURE_2D 0, getError]) = GL_NO_ERROR \<and>
    tex_image gl (calls @ [bindTexture GL_TEXTURE_2D texture_id, getError,
      getTexImage GL_TEXTURE_2D 0 GL_RED_INTEGER GL_UNSIGNED_BYTE]) = texels \<and>
    length texels = 64 \<longrightarrow>
    fst (VertexBufferObjectsTest_verifyInvalidResults gl texture_id calls) =
      Inr (\<exists>i<64. texels ! i \<noteq> 255))"
proof (intro conjI impI)
  show "VertexBufferObjectsTest_verifyInvalidResults gl texture_id calls =
     (case VertexBufferObjectsTest_verifyResults gl texture_id calls of
        (Inl e, calls') \<Rightarrow> (Inl e, calls')
      | (Inr result, calls') \<Rightarrow> (Inr (\<not> result), calls'))"
    by (simp add: VertexBufferObjectsTest_verifyInvalidResults_def then_do_def)
next
  assume a: "error_code gl (calls @ [bindTexture GL_TEXTURE_2D texture_id, getError]) = GL_NO_ERROR \<and>
    error_code gl (calls @ [bindTexture GL_TEXTURE_2D texture_id, getError,
      getTexImage GL_TEXTURE_2D 0 GL_RED_INTEGER GL_UNSIGNED_BYTE, getError]) = GL_NO_ERROR \<and>
    error_code gl (calls @ [bindTexture GL_TEXTURE_2D texture_id, getError,
      getTexImage GL_TEXTURE_2D 0 GL_RED_INTEGER GL_UNSIGNED_BYTE, getError,
      bindTexture GL_TEXTURE_2D 0, getError]) = GL_NO_ERROR \<and>
    tex_image gl (calls @ [bindTexture GL_TEXTURE_2D texture_id, getError,
      getTexImage GL_TEXTURE_2D 0 GL_RED_INTEGER GL_UNSIGNED_BYTE]) = texels \<and>
    length texels = 64"
  then have len: "length texels = 64" by simp
  from a have "VertexBufferObjectsTest_verifyResults gl texture_id calls =
           (Inr (verify_loop (texels @ drop (length texels) (replicate 64 0)) 0),
            calls @ [bindTexture GL_TEXTURE_2D texture_id, getError,
                     getTexImage GL_TEXTURE_2D 0 GL_RED_INTEGER GL_UNSIGNED_BYTE, getError,
                     bindTexture GL_TEXTURE_2D 0, getError])"
    by (intro verifyResults_eq) simp_all
  then show "fst (VertexBufferObjectsTest_verifyInvalidResults gl texture_id calls) =
      Inr (\<exists>i<64. texels ! i \<noteq> 255)"
    using read_back_all_255 [OF len]
    by (simp add: VertexBufferObjectsTest_verifyInvalidResults_def then_do_def)
qed

theorem verifyInvalidResults_negates_witness:
  "fst (VertexBufferObjectsTest_verifyInvalidResults one_texel_off_driver 5 []) = Inr True"
proof -
  have ex: "(\<exists>i<64. (replicate 63 255 @ [0 :: byte]) ! i \<noteq> 255) = True"
  proof -
    have "(63 :: nat) < 64 \<and> (replicate 63 255 @ [0 :: byte]) ! 63 \<noteq> 255"
      by (simp add: nth_append)
    then show ?thesis by blast
  qed
  have "error_code one_texel_off_driver ([] @ [bindTexture GL_TEXTURE_2D 5, getError]) = GL_NO_ERROR \<and>
    error_code one_texel_off_driver ([] @ [bindTexture GL_TEXTURE_2D 5, getError,
      getTexImage GL_TEXTURE_2D 0 GL_RED_INTEGER GL_UNSIGNED_BYTE, getError]) = GL_NO_ERROR \<and>
    error_code one_texel_off_driver ([] @ [bindTexture GL_TEXTURE_2D 5, getError,
      getTexImage GL_TEXTURE_2D 0 GL_RED_INTEGER GL_UNSIGNED_BYTE, getError,
      bindTexture GL_TEXTURE_2D 0, getError]) = GL_NO_ERROR \<and>
    tex_image one_texel_off_driver ([] @ [bindTexture GL_TEXTURE_2D 5, getError,
      getTexImage GL_TEXTURE_2D 0 GL_RED_INTEGER GL_UNSIGNED_BYTE]) = replicate 63 255 @ [0] \<and>
    length (replicate 63 255 @ [0 :: byte]) = 64"
    by (simp add: one_texel_off_driver_def)
  with verifyInvalidResults_negates [of one_texel_off_driver 5 "[]" "replicate 63 255 @ [0]"]
  have "fst (VertexBufferObjectsTest_verifyInvalidResults one_texel_off_driver 5 []) =
          Inr (\<exists>i<64. (replicate 63 255 @ [0 :: byte]) ! i \<noteq> 255)"
    by blast
  then show ?thesis by (simp only: ex)
qed

section \<open>The feature check\<close>

text \<open>
  C6. \<open>isRobustBufferAccessBehaviorFeatureSupported\<close> returns true if and only if one of
  the two extensions is supported or the context supports OpenGL 4.3 core, and then
  leaves the context as it is; when it returns false it has set the test result to
  \<open>QP_TEST_RESULT_NOT_SUPPORTED\<close>. In that case \<open>iterate()\<close> returns \<open>STOP\<close> at once:
  whatever the statements after the check are, none of them runs, so nothing besides
  the test result changes and no call reaches the driver.
\<close>

theorem feature_check_and_early_stop:
  "fst (isRobustBufferAccessBehaviorFeatureSupported contextSupports context) =
     (isExtensionSupported context ''GL_KHR_robust_buffer_access_behavior'' \<or>
      isExtensionSupported context ''GL_ARB_robust_buffer_access_behavior'' \<or>
      contextSupports (getType context) (core 4 3)) \<and>
   (fst (isRobustBufferAccessBehaviorFeatureSupported contextSupports context) \<longrightarrow>
      snd (isRobustBufferAccessBehaviorFeatureSupported contextSupports context) = context) \<and>
   (\<not> fst (isRobustBufferAccessBehaviorFeatureSupported contextSupports context) \<longrightarrow>
      snd (isRobustBufferAccessBehaviorFeatureSupported contextSupports context) =
        context\<lparr>testResult := Some (QP_TEST_RESULT_NOT_SUPPORTED, ''Not Supported'')\<rparr> \<and>
      iterate contextSupports rest (context, world) =
        (Inr STOP,
         (context\<lparr>testResult := Some (QP_TEST_RESULT_NOT_SUPPORTED, ''Not Supported'')\<rparr>,
          world)))"
  by (simp add: isRobustBufferAccessBehaviorFeatureSupported_def iterate_def Let_def)

theorem feature_check_and_early_stop_witness:
  "iterate version_at_least drawing_rest (gl42_context, []) =
     (Inr STOP,
      (gl42_context\<lparr>testResult := Some (QP_TEST_RESULT_NOT_SUPPORTED, ''Not Supported'')\<rparr>, [])) \<and>
   isRobustBufferAccessBehaviorFeatureSupported version_at_least gl42_arb_context =
     (True, gl42_arb_context)"
proof -
  have no: "\<not> (isExtensionSupported gl42_context ''GL_KHR_robust_buffer_access_behavior'' \<or>
                isExtensionSupported gl42_context ''GL_ARB_robust_buffer_access_behavior'' \<or>
                version_at_least (getType gl42_context) (core 4 3))"
    by (simp add: gl42_context_def)
  have yes: "isExtensionSupported gl42_arb_context ''GL_ARB_robust_buffer_access_behavior''"
    by (simp add: gl42_arb_context_def)
  from feature_check_and_early_stop [of version_at_least gl42_context drawing_rest "[]"] no
  have one: "iterate version_at_least drawing_rest (gl42_context, []) =
     (Inr STOP,
      (gl42_context\<lparr>testResult := Some (QP_TEST_RESULT_NOT_SUPPORTED, ''Not Supported'')\<rparr>, []))"
    by blast
  from feature_check_and_early_stop [of version_at_least gl42_arb_context drawing_rest "[]"] yes
  have "fst (isRobustBufferAccessBehaviorFeatureSupported version_at_least gl42_arb_context) \<and>
        snd (isRobustBufferAccessBehaviorFeatureSupported version_at_least gl42_arb_context) =
          gl42_arb_context"
    by blast
  then have two: "isRobustBufferAccessBehaviorFeatureSupported version_at_least gl42_arb_context =
     (True, gl42_arb_context)"
    by (cases "isRobustBufferAccessBehaviorFeatureSupported version_at_least gl42_arb_context")
      simp
  from one two show ?thesis by (rule conjI)
qed

section \<open>Shader::Init, Program::Attach and Program::Init\<close>

lemma attached_append: "attached (xs @ ys) = attached xs @ attached ys"
  by (simp add: attached_def)

lemma attached_Nil: "attached [] = []"
  by (simp add: attached_def)

lemma attached_Cons:
  "attached (c # cs) = (case c of attachShader p s \<Rightarrow> [(p, s)] | _ \<Rightarrow> []) @ attached cs"
  by (simp add: attached_def)

lemma statements_Cons_Inr:
  assumes "fst (statements (f # fs) s) = Inr ()"
  shows "fst (f s) = Inr ()" and "statements (f # fs) s = statements fs (snd (f s))"
  using assms by (auto split: prod.splits sum.splits)

lemma on_member_eq:
  "on_member get upd f (p, calls) =
     (fst (f (get p, calls)),
      (upd (\<lambda>_. fst (snd (f (get p, calls)))) p, snd (snd (f (get p, calls)))))"
  by (simp add: on_member_def split: prod.splits)

lemma on_gl_eq:
  "on_gl f (p, calls) = (fst (f calls), (p, snd (f calls)))"
  by (simp add: on_gl_def split: prod.splits)

lemma GLU_EXPECT_NO_ERROR_attached:
  "attached (snd (GLU_EXPECT_NO_ERROR gl msg calls)) = attached calls"
  by (simp add: GLU_EXPECT_NO_ERROR_def Let_def attached_append attached_Cons attached_Nil)

text \<open>\<open>Shader::Init\<close> with an empty source returns at once.\<close>

lemma Shader_Init_empty:
  "Shader_Init gl stage [] (s, calls) = (Inr (), (s, calls))"
  by (simp add: Shader_Init_def)

lemma Shader_Init_attached:
  "attached (snd (snd (Shader_Init gl stage source (s, calls)))) = attached calls"
  by (simp add: Shader_Init_def Shader_Release_eq Shader_Create_def Shader_Source_def
      Shader_Compile_def on_gl_def then_do_def call_def GLU_EXPECT_NO_ERROR_def Let_def
      deleted_shader_def attached_append attached_Cons attached_Nil)

lemma Shader_Init_id:
  assumes "fst (Shader_Init gl stage source (s, calls)) = Inr ()" and "source \<noteq> []"
  shows "Shader.m_id (fst (snd (Shader_Init gl stage source (s, calls)))) \<noteq> Shader_m_invalid_id"
  using assms
  by (simp add: Shader_Init_def Shader_Release_eq Shader_Create_def Shader_Source_def
      Shader_Compile_def on_gl_def then_do_def call_def GLU_EXPECT_NO_ERROR_def Let_def
      split: if_splits)

lemma Shader_Init_cooperative:
  assumes "cooperative gl"
  shows "fst (Shader_Init gl stage source (s, calls)) = Inr ()"
  using assms
  by (simp add: cooperative_def Shader_Init_def Shader_Release_eq Shader_Create_def
      Shader_Source_def Shader_Compile_def on_gl_def then_do_def call_def
      GLU_EXPECT_NO_ERROR_def Let_def Shader_m_invalid_id_def)

text \<open>\<open>Program::Attach\<close> does nothing when one of the ids is invalid.\<close>

lemma Program_Attach_invalid:
  "program_id = Program_m_invalid_id \<or> shader_id = Shader_m_invalid_id \<Longrightarrow>
     Program_Attach gl program_id shader_id calls = (Inr (), calls)"
  by (auto simp add: Program_Attach_def)

lemma Program_Attach_attached:
  "attached (snd (Program_Attach gl program_id shader_id calls)) =
     attached calls @
     (if program_id = Program_m_invalid_id \<or> shader_id = Shader_m_invalid_id then []
      else [(program_id, shader_id)])"
  by (auto simp add: Program_Attach_def call_def GLU_EXPECT_NO_ERROR_def Let_def
      attached_append attached_Cons attached_Nil)

lemma Program_Attach_cooperative:
  "cooperative gl \<Longrightarrow> fst (Program_Attach gl program_id shader_id calls) = Inr ()"
  by (simp add: cooperative_def Program_Attach_def call_def GLU_EXPECT_NO_ERROR_def Let_def)

lemma Program_Create_facts:
  "attached (snd (Program_Create gl calls)) = attached calls"
  "Program_Create gl calls = (Inr id', calls') \<Longrightarrow> id' \<noteq> Program_m_invalid_id"
  "cooperative gl \<Longrightarrow> \<exists>id'. fst (Program_Create gl calls) = Inr id'"
  by (auto simp add: Program_Create_def then_do_def GLU_EXPECT_NO_ERROR_def Let_def
      attached_append attached_Cons attached_Nil cooperative_def Program_m_invalid_id_def
      split: if_splits)

lemma Program_Link_facts:
  "attached (snd (Program_Link gl id' calls)) = attached calls"
  "cooperative gl \<Longrightarrow> fst (Program_Link gl id' calls) = Inr ()"
  by (simp_all add: Program_Link_def call_def GLU_EXPECT_NO_ERROR_def Let_def
      attached_append attached_Cons attached_Nil cooperative_def)

lemma Program_Release_attached:
  "attached (snd (snd (Program_Release gl (p, calls)))) = attached calls"
  by (simp add: Program_Release_eq deleted_shaders_def deleted_shader_def
      attached_append attached_Cons attached_Nil)

lemma Program_Release_cooperative:
  "cooperative gl \<Longrightarrow> fst (Program_Release gl (p, calls)) = Inr ()"
  by (simp add: Program_Release_eq cooperative_def)

text \<open>
  A block that returns has run every statement, each from the state the one before
  left.
\<close>

lemma statements_states:
  "fst (statements fs s) = Inr () \<Longrightarrow>
     \<exists>ss. length ss = Suc (length fs) \<and> ss ! 0 = s \<and>
          (\<forall>i<length fs. (fs ! i) (ss ! i) = (Inr (), ss ! Suc i)) \<and>
          statements fs s = (Inr (), ss ! length fs)"
proof (induction fs arbitrary: s)
  case Nil
  show ?case by (rule exI [of _ "[s]"]) simp
next
  case (Cons f fs)
  from statements_Cons_Inr [OF Cons.prems]
  have f: "fst (f s) = Inr ()" and rest: "statements (f # fs) s = statements fs (snd (f s))"
    by simp_all
  from Cons.prems rest have "fst (statements fs (snd (f s))) = Inr ()" by simp
  from Cons.IH [OF this] obtain ss where ss: "length ss = Suc (length fs)"
    "ss ! 0 = snd (f s)"
    "\<forall>i<length fs. (fs ! i) (ss ! i) = (Inr (), ss ! Suc i)"
    "statements fs (snd (f s)) = (Inr (), ss ! length fs)"
    by blast
  from f ss(2) have first: "f s = (Inr (), ss ! 0)"
    by (cases "f s") simp
  have "\<forall>i<length (f # fs). ((f # fs) ! i) ((s # ss) ! i) = (Inr (), (s # ss) ! Suc i)"
  proof (intro allI impI)
    fix i assume "i < length (f # fs)"
    then show "((f # fs) ! i) ((s # ss) ! i) = (Inr (), (s # ss) ! Suc i)"
      using first ss(3) by (cases i) simp_all
  qed
  with ss(1,4) rest show ?case
    by (intro exI [of _ "s # ss"]) simp
qed

lemma statements_all_return:
  "(\<And>f s. f \<in> set fs \<Longrightarrow> fst (f s) = Inr ()) \<Longrightarrow> fst (statements fs s) = Inr ()"
proof (induction fs arbitrary: s)
  case Nil
  show ?case by simp
next
  case (Cons f fs)
  from Cons.prems [of f s] have "fst (f s) = Inr ()" by simp
  moreover have "fst (statements fs (snd (f s))) = Inr ()"
    by (rule Cons.IH) (simp add: Cons.prems)
  ultimately show ?case
    by (cases "f s") (auto split: sum.splits)
qed

lemma init_step:
  assumes "on_member get upd (Shader_Init gl stage source) (p, calls) = (Inr (), (p', calls'))"
  shows "\<exists>sh. p' = upd (\<lambda>_. sh) p \<and> (source = [] \<longrightarrow> sh = get p) \<and>
              (source \<noteq> [] \<longrightarrow> Shader.m_id sh \<noteq> Shader_m_invalid_id) \<and>
              attached calls' = attached calls"
proof -
  let ?r = "Shader_Init gl stage source (get p, calls)"
  from assms have ok: "fst ?r = Inr ()" and p': "p' = upd (\<lambda>_. fst (snd ?r)) p"
    and calls': "calls' = snd (snd ?r)"
    by (simp_all add: on_member_eq)
  have "source = [] \<longrightarrow> fst (snd ?r) = get p"
    by (simp add: Shader_Init_empty)
  moreover have "source \<noteq> [] \<longrightarrow> Shader.m_id (fst (snd ?r)) \<noteq> Shader_m_invalid_id"
    using Shader_Init_id [OF ok] by simp
  moreover have "attached calls' = attached calls"
    using calls' by (simp add: Shader_Init_attached)
  ultimately show ?thesis using p' by blast
qed

lemma create_step:
  assumes "(case Program_Create gl calls of
              (Inl e, calls) \<Rightarrow> (Inl e, (p, calls))
            | (Inr id', calls) \<Rightarrow> (Inr (), (p\<lparr>Program.m_id := id'\<rparr>, calls))) =
           (Inr (), (p', calls'))"
  shows "\<exists>id'. id' \<noteq> Program_m_invalid_id \<and> p' = p\<lparr>Program.m_id := id'\<rparr> \<and>
               attached calls' = attached calls"
proof (cases "Program_Create gl calls")
  case (Pair r c)
  with assms obtain id' where r: "r = Inr id'" by (cases r) simp_all
  from Pair r have "Program_Create gl calls = (Inr id', c)" by simp
  then have "id' \<noteq> Program_m_invalid_id" by (rule Program_Create_facts(2))
  moreover from Pair have "attached c = attached calls"
    using Program_Create_facts(1) [of gl calls] by simp
  ultimately show ?thesis using assms Pair r by auto
qed

lemma attach_step:
  assumes "on_gl (Program_Attach gl program_id shader_id) (p, calls) = (Inr (), (p', calls'))"
    and "program_id \<noteq> Program_m_invalid_id"
  shows "p' = p \<and>
         attached calls' =
           attached calls @
           (if shader_id \<noteq> Shader_m_invalid_id then [(program_id, shader_id)] else [])"
  using assms Program_Attach_attached [of gl program_id shader_id calls]
  by (auto simp add: on_gl_eq)

lemma link_step:
  assumes "on_gl (Program_Link gl id') (p, calls) = (Inr (), (p', calls'))"
  shows "p' = p \<and> attached calls' = attached calls"
  using assms Program_Link_facts(1) [of gl id' calls]
  by (auto simp add: on_gl_eq)

text \<open>
  What \<open>Program::Init\<close> has done when it returns: the program has a valid id, a stage has
  a shader object exactly when its source is not empty, and the shaders attached are
  those objects, in the order of the stages.
\<close>

lemma Program_Init_result:
  assumes ok: "fst (Program_Init gl cs fs gs tcs tes vs (p, calls)) = Inr ()"
  shows "\<exists>p' calls'.
           Program_Init gl cs fs gs tcs tes vs (p, calls) = (Inr (), (p', calls')) \<and>
           Program.m_id p' \<noteq> Program_m_invalid_id \<and>
           (Shader.m_id (m_compute p') = Shader_m_invalid_id) = (cs = []) \<and>
           (Shader.m_id (m_fragment p') = Shader_m_invalid_id) = (fs = []) \<and>
           (Shader.m_id (m_geometry p') = Shader_m_invalid_id) = (gs = []) \<and>
           (Shader.m_id (m_tess_ctrl p') = Shader_m_invalid_id) = (tcs = []) \<and>
           (Shader.m_id (m_tess_eval p') = Shader_m_invalid_id) = (tes = []) \<and>
           (Shader.m_id (m_vertex p') = Shader_m_invalid_id) = (vs = []) \<and>
           attached calls' =
             attached calls @
             map (\<lambda>sh. (Program.m_id p', Shader.m_id sh))
               (filter (\<lambda>sh. Shader.m_id sh \<noteq> Shader_m_invalid_id) (Program_shaders p'))"
proof -
  let ?fs = "[Program_Release gl,
      on_member m_compute m_compute_update (Shader_Init gl GL_COMPUTE_SHADER cs),
      on_member m_fragment m_fragment_update (Shader_Init gl GL_FRAGMENT_SHADER fs),
      on_member m_geometry m_geometry_update (Shader_Init gl GL_GEOMETRY_SHADER gs),
      on_member m_tess_ctrl m_tess_ctrl_update (Shader_Init gl GL_TESS_CONTROL_SHADER tcs),
      on_member m_tess_eval m_tess_eval_update (Shader_Init gl GL_TESS_EVALUATION_SHADER tes),
      on_member m_vertex m_vertex_update (Shader_Init gl GL_VERTEX_SHADER vs),
      (\<lambda>(this, calls).
         case Program_Create gl calls of
           (Inl e, calls) \<Rightarrow> (Inl e, (this, calls))
         | (Inr id', calls) \<Rightarrow> (Inr (), (this\<lparr>Program.m_id := id'\<rparr>, calls))),
      (\<lambda>(this, calls).
         on_gl (Program_Attach gl (Program.m_id this) (Shader.m_id (m_compute this))) (this, calls)),
      (\<lambda>(this, calls).
         on_gl (Program_Attach gl (Program.m_id this) (Shader.m_id (m_fragment this))) (this, calls)),
      (\<lambda>(this, calls).
         on_gl (Program_Attach gl (Program.m_id this) (Shader.m_id (m_geometry this))) (this, calls)),
      (\<lambda>(this, calls).
         on_gl (Program_Attach gl (Program.m_id this) (Shader.m_id (m_tess_ctrl this))) (this, calls)),
      (\<lambda>(this, calls).
         on_gl (Program_Attach gl (Program.m_id this) (Shader.m_id (m_tess_eval this))) (this, calls)),
      (\<lambda>(this, calls).
         on_gl (Program_Attach gl (Program.m_id this) (Shader.m_id (m_vertex this))) (this, calls)),
      (\<lambda>(this, calls). on_gl (Program_Link gl (Program.m_id this)) (this, calls))]"
  have "fst (statements ?fs (p, calls)) = Inr ()"
    using ok by (simp only: Program_Init_def)
  then have "\<exists>ss. length ss = Suc (length ?fs) \<and> ss ! 0 = (p, calls) \<and>
          (\<forall>i<length ?fs. (?fs ! i) (ss ! i) = (Inr (), ss ! Suc i)) \<and>
          statements ?fs (p, calls) = (Inr (), ss ! length ?fs)"
    by (rule statements_states)
  then obtain ss where ss: "length ss = Suc (length ?fs) \<and> ss ! 0 = (p, calls) \<and>
          (\<forall>i<length ?fs. (?fs ! i) (ss ! i) = (Inr (), ss ! Suc i)) \<and>
          statements ?fs (p, calls) = (Inr (), ss ! length ?fs)" ..
  from ss have first: "ss ! 0 = (p, calls)" by (elim conjE)
  from ss have all: "\<forall>i<length ?fs. (?fs ! i) (ss ! i) = (Inr (), ss ! Suc i)" by (elim conjE)
  have len: "length ?fs = 15" by simp
  from all have all15: "\<forall>i<15. (?fs ! i) (ss ! i) = (Inr (), ss ! Suc i)"
    by (simp only: len)
  have steps: "(?fs ! i) (ss ! i) = (Inr (), ss ! Suc i)" if "i < 15" for i
    using all15 [rule_format, OF that] .
  from ss have "statements ?fs (p, calls) = (Inr (), ss ! length ?fs)" by (elim conjE)
  then have last: "Program_Init gl cs fs gs tcs tes vs (p, calls) = (Inr (), ss ! 15)"
    by (simp only: Program_Init_def len)
  obtain p1 c1 where s1: "ss ! 1 = (p1, c1)" by (cases "ss ! 1")
  obtain p2 c2 where s2: "ss ! 2 = (p2, c2)" by (cases "ss ! 2")
  obtain p3 c3 where s3: "ss ! 3 = (p3, c3)" by (cases "ss ! 3")
  obtain p4 c4 where s4: "ss ! 4 = (p4, c4)" by (cases "ss ! 4")
  obtain p5 c5 where s5: "ss ! 5 = (p5, c5)" by (cases "ss ! 5")
  obtain p6 c6 where s6: "ss ! 6 = (p6, c6)" by (cases "ss ! 6")
  obtain p7 c7 where s7: "ss ! 7 = (p7, c7)" by (cases "ss ! 7")
  obtain p8 c8 where s8: "ss ! 8 = (p8, c8)" by (cases "ss ! 8")
  obtain p9 c9 where s9: "ss ! 9 = (p9, c9)" by (cases "ss ! 9")
  obtain p10 c10 where s10: "ss ! 10 = (p10, c10)" by (cases "ss ! 10")
  obtain p11 c11 where s11: "ss ! 11 = (p11, c11)" by (cases "ss ! 11")
  obtain p12 c12 where s12: "ss ! 12 = (p12, c12)" by (cases "ss ! 12")
  obtain p13 c13 where s13: "ss ! 13 = (p13, c13)" by (cases "ss ! 13")
  obtain p14 c14 where s14: "ss ! 14 = (p14, c14)" by (cases "ss ! 14")
  obtain p15 c15 where s15: "ss ! 15 = (p15, c15)" by (cases "ss ! 15")
  have st0: "Program_Release gl (p, calls) = (Inr (), (p1, c1))"
    using steps [of 0] first s1 by simp
  have st1: "on_member m_compute m_compute_update (Shader_Init gl GL_COMPUTE_SHADER cs) (p1, c1) =
               (Inr (), (p2, c2))"
    using steps [of 1] s1 s2 by (simp add: numeral_2_eq_2)
  have st2: "on_member m_fragment m_fragment_update (Shader_Init gl GL_FRAGMENT_SHADER fs) (p2, c2) =
               (Inr (), (p3, c3))"
    using steps [of 2] s2 s3 by simp
  have st3: "on_member m_geometry m_geometry_update (Shader_Init gl GL_GEOMETRY_SHADER gs) (p3, c3) =
               (Inr (), (p4, c4))"
    using steps [of 3] s3 s4 by simp
  have st4: "on_member m_tess_ctrl m_tess_ctrl_update
               (Shader_Init gl GL_TESS_CONTROL_SHADER tcs) (p4, c4) = (Inr (), (p5, c5))"
    using steps [of 4] s4 s5 by simp
  have st5: "on_member m_tess_eval m_tess_eval_update
               (Shader_Init gl GL_TESS_EVALUATION_SHADER tes) (p5, c5) = (Inr (), (p6, c6))"
    using steps [of 5] s5 s6 by simp
  have st6: "on_member m_vertex m_vertex_update (Shader_Init gl GL_VERTEX_SHADER vs) (p6, c6) =
               (Inr (), (p7, c7))"
    using steps [of 6] s6 s7 by simp
  have st7: "(case Program_Create gl c7 of
                (Inl e, calls) \<Rightarrow> (Inl e, (p7, calls))
              | (Inr id', calls) \<Rightarrow> (Inr (), (p7\<lparr>Program.m_id := id'\<rparr>, calls))) =
             (Inr (), (p8, c8))"
    using steps [of 7] s7 s8 by simp
  have st8: "on_gl (Program_Attach gl (Program.m_id p8) (Shader.m_id (m_compute p8))) (p8, c8) =
               (Inr (), (p9, c9))"
    using steps [of 8] s8 s9 by simp
  have st9: "on_gl (Program_Attach gl (Program.m_id p9) (Shader.m_id (m_fragment p9))) (p9, c9) =
               (Inr (), (p10, c10))"
    using steps [of 9] s9 s10 by simp
  have st10: "on_gl (Program_Attach gl (Program.m_id p10) (Shader.m_id (m_geometry p10))) (p10, c10) =
                (Inr (), (p11, c11))"
    using steps [of 10] s10 s11 by simp
  have st11: "on_gl (Program_Attach gl (Program.m_id p11) (Shader.m_id (m_tess_ctrl p11))) (p11, c11) =
                (Inr (), (p12, c12))"
    using steps [of 11] s11 s12 by simp
  have st12: "on_gl (Program_Attach gl (Program.m_id p12) (Shader.m_id (m_tess_eval p12))) (p12, c12) =
                (Inr (), (p13, c13))"
    using steps [of 12] s12 s13 by simp
  have st13: "on_gl (Program_Attach gl (Program.m_id p13) (Shader.m_id (m_vertex p13))) (p13, c13) =
                (Inr (), (p14, c14))"
    using steps [of 13] s13 s14 by simp
  have st14: "on_gl (Program_Link gl (Program.m_id p14)) (p14, c14) = (Inr (), (p15, c15))"
    using steps [of 14] s14 s15 by simp
  from st0 have rel: "Program_released p1"
    using Program_Release_facts [of gl p calls] by simp
  from st0 have a1: "attached c1 = attached calls"
    using Program_Release_attached [of gl p calls] by simp
  from init_step [OF st1] obtain sh1 where i1: "p2 = p1\<lparr>m_compute := sh1\<rparr>"
    "cs = [] \<longrightarrow> sh1 = m_compute p1" "cs \<noteq> [] \<longrightarrow> Shader.m_id sh1 \<noteq> Shader_m_invalid_id"
    "attached c2 = attached c1" by blast
  from init_step [OF st2] obtain sh2 where i2: "p3 = p2\<lparr>m_fragment := sh2\<rparr>"
    "fs = [] \<longrightarrow> sh2 = m_fragment p2" "fs \<noteq> [] \<longrightarrow> Shader.m_id sh2 \<noteq> Shader_m_invalid_id"
    "attached c3 = attached c2" by blast
  from init_step [OF st3] obtain sh3 where i3: "p4 = p3\<lparr>m_geometry := sh3\<rparr>"
    "gs = [] \<longrightarrow> sh3 = m_geometry p3" "gs \<noteq> [] \<longrightarrow> Shader.m_id sh3 \<noteq> Shader_m_invalid_id"
    "attached c4 = attached c3" by blast
  from init_step [OF st4] obtain sh4 where i4: "p5 = p4\<lparr>m_tess_ctrl := sh4\<rparr>"
    "tcs = [] \<longrightarrow> sh4 = m_tess_ctrl p4" "tcs \<noteq> [] \<longrightarrow> Shader.m_id sh4 \<noteq> Shader_m_invalid_id"
    "attached c5 = attached c4" by blast
  from init_step [OF st5] obtain sh5 where i5: "p6 = p5\<lparr>m_tess_eval := sh5\<rparr>"
    "tes = [] \<longrightarrow> sh5 = m_tess_eval p5" "tes \<noteq> [] \<longrightarrow> Shader.m_id sh5 \<noteq> Shader_m_invalid_id"
    "attached c6 = attached c5" by blast
  from init_step [OF st6] obtain sh6 where i6: "p7 = p6\<lparr>m_vertex := sh6\<rparr>"
    "vs = [] \<longrightarrow> sh6 = m_vertex p6" "vs \<noteq> [] \<longrightarrow> Shader.m_id sh6 \<noteq> Shader_m_invalid_id"
    "attached c7 = attached c6" by blast
  from create_step [OF st7] obtain id' where cr: "id' \<noteq> Program_m_invalid_id"
    "p8 = p7\<lparr>Program.m_id := id'\<rparr>" "attached c8 = attached c7" by blast
  from cr have id8: "Program.m_id p8 \<noteq> Program_m_invalid_id" by simp
  from attach_step [OF st8 id8] have t8: "p9 = p8"
    "attached c9 = attached c8 @
       (if Shader.m_id (m_compute p8) \<noteq> Shader_m_invalid_id
        then [(Program.m_id p8, Shader.m_id (m_compute p8))] else [])" by simp_all
  from attach_step [OF st9] id8 t8 have t9: "p10 = p8"
    "attached c10 = attached c9 @
       (if Shader.m_id (m_fragment p8) \<noteq> Shader_m_invalid_id
        then [(Program.m_id p8, Shader.m_id (m_fragment p8))] else [])" by simp_all
  from attach_step [OF st10] id8 t9 have t10: "p11 = p8"
    "attached c11 = attached c10 @
       (if Shader.m_id (m_geometry p8) \<noteq> Shader_m_invalid_id
        then [(Program.m_id p8, Shader.m_id (m_geometry p8))] else [])" by simp_all
  from attach_step [OF st11] id8 t10 have t11: "p12 = p8"
    "attached c12 = attached c11 @
       (if Shader.m_id (m_tess_ctrl p8) \<noteq> Shader_m_invalid_id
        then [(Program.m_id p8, Shader.m_id (m_tess_ctrl p8))] else [])" by simp_all
  from attach_step [OF st12] id8 t11 have t12: "p13 = p8"
    "attached c13 = attached c12 @
       (if Shader.m_id (m_tess_eval p8) \<noteq> Shader_m_invalid_id
        then [(Program.m_id p8, Shader.m_id (m_tess_eval p8))] else [])" by simp_all
  from attach_step [OF st13] id8 t12 have t13: "p14 = p8"
    "attached c14 = attached c13 @
       (if Shader.m_id (m_vertex p8) \<noteq> Shader_m_invalid_id
        then [(Program.m_id p8, Shader.m_id (m_vertex p8))] else [])" by simp_all
  from link_step [OF st14] t13 have t14: "p15 = p8" "attached c15 = attached c14" by simp_all
  have sh: "m_compute p8 = sh1" "m_fragment p8 = sh2" "m_geometry p8 = sh3"
    "m_tess_ctrl p8 = sh4" "m_tess_eval p8 = sh5" "m_vertex p8 = sh6"
    using i1(1) i2(1) i3(1) i4(1) i5(1) i6(1) cr(2) by simp_all
  from rel have inv: "Shader.m_id (m_compute p1) = Shader_m_invalid_id"
    "Shader.m_id (m_fragment p1) = Shader_m_invalid_id"
    "Shader.m_id (m_geometry p1) = Shader_m_invalid_id"
    "Shader.m_id (m_tess_ctrl p1) = Shader_m_invalid_id"
    "Shader.m_id (m_tess_eval p1) = Shader_m_invalid_id"
    "Shader.m_id (m_vertex p1) = Shader_m_invalid_id"
    by (simp_all add: Program_released_def)
  have e1: "(Shader.m_id sh1 = Shader_m_invalid_id) = (cs = [])"
    using i1(2,3) inv(1) by auto
  have e2: "(Shader.m_id sh2 = Shader_m_invalid_id) = (fs = [])"
    using i2(2,3) i1(1) inv(2) by auto
  have e3: "(Shader.m_id sh3 = Shader_m_invalid_id) = (gs = [])"
    using i3(2,3) i1(1) i2(1) inv(3) by auto
  have e4: "(Shader.m_id sh4 = Shader_m_invalid_id) = (tcs = [])"
    using i4(2,3) i1(1) i2(1) i3(1) inv(4) by auto
  have e5: "(Shader.m_id sh5 = Shader_m_invalid_id) = (tes = [])"
    using i5(2,3) i1(1) i2(1) i3(1) i4(1) inv(5) by auto
  have e6: "(Shader.m_id sh6 = Shader_m_invalid_id) = (vs = [])"
    using i6(2,3) i1(1) i2(1) i3(1) i4(1) i5(1) inv(6) by auto
  have att: "attached c15 =
      attached calls @
      map (\<lambda>sh. (Program.m_id p8, Shader.m_id sh))
        (filter (\<lambda>sh. Shader.m_id sh \<noteq> Shader_m_invalid_id) (Program_shaders p8))"
    using t14(2) t13(2) t12(2) t11(2) t10(2) t9(2) t8(2) cr(3) i6(4) i5(4) i4(4) i3(4) i2(4)
      i1(4) a1
    by (simp add: Program_shaders_def)
  from last s15 t14(1) have "Program_Init gl cs fs gs tcs tes vs (p, calls) = (Inr (), (p8, c15))"
    by simp
  with id8 e1 e2 e3 e4 e5 e6 sh att show ?thesis
    by (intro exI [of _ p8] exI [of _ c15]) simp
qed

lemma Program_Init_cooperative:
  assumes "cooperative gl"
  shows "fst (Program_Init gl cs fs gs tcs tes vs (p, calls)) = Inr ()"
  unfolding Program_Init_def
proof (rule statements_all_return)
  fix f :: "Program \<times> gl_call list \<Rightarrow> (error + unit) \<times> (Program \<times> gl_call list)"
  fix s :: "Program \<times> gl_call list"
  obtain q c where s: "s = (q, c)" by (cases s)
  have create: "fst (case Program_Create gl c of
                       (Inl e, calls) \<Rightarrow> (Inl e, (q, calls))
                     | (Inr id', calls) \<Rightarrow> (Inr (), (q\<lparr>Program.m_id := id'\<rparr>, calls))) = Inr ()"
    using Program_Create_facts(3) [OF assms, of c]
    by (auto split: prod.splits sum.splits)
  assume "f \<in> set
      [Program_Release gl,
        on_member m_compute m_compute_update (Shader_Init gl GL_COMPUTE_SHADER cs),
        on_member m_fragment m_fragment_update (Shader_Init gl GL_FRAGMENT_SHADER fs),
        on_member m_geometry m_geometry_update (Shader_Init gl GL_GEOMETRY_SHADER gs),
        on_member m_tess_ctrl m_tess_ctrl_update (Shader_Init gl GL_TESS_CONTROL_SHADER tcs),
        on_member m_tess_eval m_tess_eval_update (Shader_Init gl GL_TESS_EVALUATION_SHADER tes),
        on_member m_vertex m_vertex_update (Shader_Init gl GL_VERTEX_SHADER vs),
        (\<lambda>(this, calls).
           case Program_Create gl calls of
             (Inl e, calls) \<Rightarrow> (Inl e, (this, calls))
           | (Inr id', calls) \<Rightarrow> (Inr (), (this\<lparr>Program.m_id := id'\<rparr>, calls))),
        (\<lambda>(this, calls).
           on_gl (Program_Attach gl (Program.m_id this) (Shader.m_id (m_compute this))) (this, calls)),
        (\<lambda>(this, calls).
           on_gl (Program_Attach gl (Program.m_id this) (Shader.m_id (m_fragment this))) (this, calls)),
        (\<lambda>(this, calls).
           on_gl (Program_Attach gl (Program.m_id this) (Shader.m_id (m_geometry this))) (this, calls)),
        (\<lambda>(this, calls).
           on_gl (Program_Attach gl (Program.m_id this) (Shader.m_id (m_tess_ctrl this))) (this, calls)),
        (\<lambda>(this, calls).
           on_gl (Program_Attach gl (Program.m_id this) (Shader.m_id (m_tess_eval this))) (this, calls)),
        (\<lambda>(this, calls).
           on_gl (Program_Attach gl (Program.m_id this) (Shader.m_id (m_vertex this))) (this, calls)),
        (\<lambda>(this, calls). on_gl (Program_Link gl (Program.m_id this)) (this, calls))]"
  then show "fst (f s) = Inr ()"
    unfolding s set_simps insert_iff empty_iff
    using create
    by (elim disjE)
      (simp_all add: on_member_eq on_gl_eq Program_Release_cooperative [OF assms]
        Shader_Init_cooperative [OF assms] Program_Attach_cooperative [OF assms]
        Program_Link_facts(2) [OF assms])
qed

text \<open>
  C10. \<open>Shader::Init\<close> with an empty source returns at once: no call is issued and
  \<open>m_id\<close> keeps its value. \<open>Program::Attach\<close> issues no call and throws nothing when the
  program id or the shader id is invalid. So, when \<open>Program::Init\<close> returns, a stage
  has a shader object exactly when its source is not empty, and the shaders attached
  to the new program are those objects and no others. No statement of \<open>Program::Init\<close>
  asks for a particular stage: with a driver that reports no error, returns valid
  names and accepts every shader and program, it returns for every choice of the six
  sources.
\<close>

theorem empty_source_is_absent_stage:
  "Shader_Init gl stage [] (s, calls) = (Inr (), (s, calls)) \<and>
   (program_id = Program_m_invalid_id \<or> shader_id = Shader_m_invalid_id \<longrightarrow>
      Program_Attach gl program_id shader_id calls = (Inr (), calls)) \<and>
   (fst (Program_Init gl cs fs gs tcs tes vs (p, calls)) = Inr () \<longrightarrow>
      (\<exists>p' calls'.
         Program_Init gl cs fs gs tcs tes vs (p, calls) = (Inr (), (p', calls')) \<and>
         Program.m_id p' \<noteq> Program_m_invalid_id \<and>
         (Shader.m_id (m_compute p') = Shader_m_invalid_id) = (cs = []) \<and>
         (Shader.m_id (m_fragment p') = Shader_m_invalid_id) = (fs = []) \<and>
         (Shader.m_id (m_geometry p') = Shader_m_invalid_id) = (gs = []) \<and>
         (Shader.m_id (m_tess_ctrl p') = Shader_m_invalid_id) = (tcs = []) \<and>
         (Shader.m_id (m_tess_eval p') = Shader_m_invalid_id) = (tes = []) \<and>
         (Shader.m_id (m_vertex p') = Shader_m_invalid_id) = (vs = []) \<and>
         attached calls' =
           attached calls @
           map (\<lambda>sh. (Program.m_id p', Shader.m_id sh))
             (filter (\<lambda>sh. Shader.m_id sh \<noteq> Shader_m_invalid_id) (Program_shaders p')))) \<and>
   (cooperative gl \<longrightarrow> fst (Program_Init gl cs fs gs tcs tes vs (p, calls)) = Inr ())"
proof (intro conjI impI)
  show "Shader_Init gl stage [] (s, calls) = (Inr (), (s, calls))"
    by (rule Shader_Init_empty)
next
  assume "program_id = Program_m_invalid_id \<or> shader_id = Shader_m_invalid_id"
  then show "Program_Attach gl program_id shader_id calls = (Inr (), calls)"
    by (rule Program_Attach_invalid)
next
  assume "fst (Program_Init gl cs fs gs tcs tes vs (p, calls)) = Inr ()"
  then show "\<exists>p' calls'.
         Program_Init gl cs fs gs tcs tes vs (p, calls) = (Inr (), (p', calls')) \<and>
         Program.m_id p' \<noteq> Program_m_invalid_id \<and>
         (Shader.m_id (m_compute p') = Shader_m_invalid_id) = (cs = []) \<and>
         (Shader.m_id (m_fragment p') = Shader_m_invalid_id) = (fs = []) \<and>
         (Shader.m_id (m_geometry p') = Shader_m_invalid_id) = (gs = []) \<and>
         (Shader.m_id (m_tess_ctrl p') = Shader_m_invalid_id) = (tcs = []) \<and>
         (Shader.m_id (m_tess_eval p') = Shader_m_invalid_id) = (tes = []) \<and>
         (Shader.m_id (m_vertex p') = Shader_m_invalid_id) = (vs = []) \<and>
         attached calls' =
           attached calls @
           map (\<lambda>sh. (Program.m_id p', Shader.m_id sh))
             (filter (\<lambda>sh. Shader.m_id sh \<noteq> Shader_m_invalid_id) (Program_shaders p'))"
    by (rule Program_Init_result)
next
  assume "cooperative gl"
  then show "fst (Program_Init gl cs fs gs tcs tes vs (p, calls)) = Inr ()"
    by (rule Program_Init_cooperative)
qed

theorem empty_source_is_absent_stage_witness:
  "cooperative willing_driver \<and>
   (\<exists>p' calls'.
      Program_Init willing_driver [] ''fs'' [] [] [] ''vs'' (new_Program, []) =
        (Inr (), (p', calls')) \<and>
      Program.m_id p' \<noteq> Program_m_invalid_id \<and>
      Shader.m_id (m_compute p') = Shader_m_invalid_id \<and>
      Shader.m_id (m_fragment p') \<noteq> Shader_m_invalid_id \<and>
      Shader.m_id (m_geometry p') = Shader_m_invalid_id \<and>
      Shader.m_id (m_tess_ctrl p') = Shader_m_invalid_id \<and>
      Shader.m_id (m_tess_eval p') = Shader_m_invalid_id \<and>
      Shader.m_id (m_vertex p') \<noteq> Shader_m_invalid_id \<and>
      attached calls' =
        [(Program.m_id p', Shader.m_id (m_fragment p')),
         (Program.m_id p', Shader.m_id (m_vertex p'))])"
proof -
  have coop: "cooperative willing_driver"
    by (simp add: cooperative_def willing_driver_def or_eq_0_iff)
  note inst = empty_source_is_absent_stage
    [where gl = willing_driver and cs = "[]" and fs = "''fs''" and gs = "[]" and tcs = "[]"
       and tes = "[]" and vs = "''vs''" and p = new_Program and calls = "[]"]
  have ok: "fst (Program_Init willing_driver [] ''fs'' [] [] [] ''vs'' (new_Program, [])) =
      Inr ()"
    by (rule inst [THEN conjunct2, THEN conjunct2, THEN conjunct2, THEN mp, OF coop])
  from inst [THEN conjunct2, THEN conjunct2, THEN conjunct1, THEN mp, OF ok]
  obtain p' calls' where r:
    "Program_Init willing_driver [] ''fs'' [] [] [] ''vs'' (new_Program, []) = (Inr (), (p', calls'))"
    "Program.m_id p' \<noteq> Program_m_invalid_id"
    "(Shader.m_id (m_compute p') = Shader_m_invalid_id) = (([] :: string) = [])"
    "(Shader.m_id (m_fragment p') = Shader_m_invalid_id) = (''fs'' = [])"
    "(Shader.m_id (m_geometry p') = Shader_m_invalid_id) = (([] :: string) = [])"
    "(Shader.m_id (m_tess_ctrl p') = Shader_m_invalid_id) = (([] :: string) = [])"
    "(Shader.m_id (m_tess_eval p') = Shader_m_invalid_id) = (([] :: string) = [])"
    "(Shader.m_id (m_vertex p') = Shader_m_invalid_id) = (''vs'' = [])"
    "attached calls' =
       attached [] @
       map (\<lambda>sh. (Program.m_id p', Shader.m_id sh))
         (filter (\<lambda>sh. Shader.m_id sh \<noteq> Shader_m_invalid_id) (Program_shaders p'))"
    by (elim conjE exE)
  from r have "Program.m_id p' \<noteq> Program_m_invalid_id \<and>
      Shader.m_id (m_compute p') = Shader_m_invalid_id \<and>
      Shader.m_id (m_fragment p') \<noteq> Shader_m_invalid_id \<and>
      Shader.m_id (m_geometry p') = Shader_m_invalid_id \<and>
      Shader.m_id (m_tess_ctrl p') = Shader_m_invalid_id \<and>
      Shader.m_id (m_tess_eval p') = Shader_m_invalid_id \<and>
      Shader.m_id (m_vertex p') \<noteq> Shader_m_invalid_id \<and>
      attached calls' =
        [(Program.m_id p', Shader.m_id (m_fragment p')),
         (Program.m_id p', Shader.m_id (m_vertex p'))]"
    by (simp add: Program_shaders_def attached_Nil)
  with r(1) coop show ?thesis by blast
qed

end
